theory Spec2Isabelle
  imports Main "HOL-Library.Char_ord" "HOL-Library.List_Lexorder" "HOL-Library.Product_Lexorder"
    "HOL-Library.Multiset"
begin

section \<open>Python strings\<close>

text \<open>
  The generator \<^verbatim>\<open>sopix.py\<close> is text processing from end to end, so the embedding starts
  with the handful of \<^verbatim>\<open>str\<close> and \<^verbatim>\<open>re\<close> operations it calls. A Python string is a
  \<^typ>\<open>string\<close>; comparison is by code point, which is the lexicographic order on
  \<^typ>\<open>char list\<close>.
\<close>

abbreviation (input) nl :: string where \<open>nl \<equiv> [CHR 0x0A]\<close>
abbreviation (input) tb :: string where \<open>tb \<equiv> [CHR 0x09]\<close>
abbreviation (input) bs :: string where \<open>bs \<equiv> [CHR 0x5C]\<close>
abbreviation (input) sq :: string where \<open>sq \<equiv> [CHR 0x27]\<close>

datatype error =
    GrammarError          \<comment> \<open>\<^verbatim>\<open>docopt.DocoptLanguageError\<close>\<close>
  | AttributeError        \<comment> \<open>a method called on \<^verbatim>\<open>None\<close>\<close>
  | InvalidShebang string \<comment> \<open>\<^verbatim>\<open>Exception("invalid shebang string: %r" % shebang)\<close>\<close>
  | FormatError           \<comment> \<open>\<^verbatim>\<open>TypeError\<close> or \<^verbatim>\<open>ValueError\<close> of a \<^verbatim>\<open>%\<close> or \<^verbatim>\<open>format\<close> call\<close>
  | TypeError             \<comment> \<open>\<^verbatim>\<open>str.join\<close> on a list that holds \<^verbatim>\<open>None\<close>\<close>
  | AssertionError        \<comment> \<open>an \<^verbatim>\<open>assert\<close> inside \<^verbatim>\<open>docopt.parse_defaults\<close>\<close>

text \<open>\<^verbatim>\<open>str.isspace\<close> on the code points below 256 (also what \<^verbatim>\<open>\s\<close> matches).\<close>

definition py_isspace :: "char \<Rightarrow> bool" where
  "py_isspace c \<longleftrightarrow> c \<in> {CHR 0x09, CHR 0x0A, CHR 0x0B, CHR 0x0C, CHR 0x0D,
     CHR 0x1C, CHR 0x1D, CHR 0x1E, CHR 0x1F, CHR 0x20, CHR 0x85, CHR 0xA0}"

definition py_lstrip :: "string \<Rightarrow> string" where
  "py_lstrip s = dropWhile py_isspace s"

definition py_rstrip :: "string \<Rightarrow> string" where
  "py_rstrip s = rev (dropWhile py_isspace (rev s))"

definition py_strip :: "string \<Rightarrow> string" where
  "py_strip s = py_lstrip (py_rstrip s)"

text \<open>\<^verbatim>\<open>s.lstrip(c)\<close> for a one-character argument.\<close>

definition lstrip_char :: "char \<Rightarrow> string \<Rightarrow> string" where
  "lstrip_char c s = dropWhile (\<lambda>x. x = c) s"

text \<open>The pieces of a string between the characters satisfying \<open>P\<close>, empty pieces included.\<close>

primrec fields :: "(char \<Rightarrow> bool) \<Rightarrow> string \<Rightarrow> string list" where
  "fields P [] = [[]]"
| "fields P (c # s) =
     (if P c then [] # fields P s
      else (case fields P s of [] \<Rightarrow> [[c]] | w # ws \<Rightarrow> (c # w) # ws))"

text \<open>\<^verbatim>\<open>s.split()\<close>: the maximal runs of non-whitespace.\<close>

definition py_split :: "string \<Rightarrow> string list" where
  "py_split s = filter (\<lambda>w. w \<noteq> []) (fields py_isspace s)"

definition startswith :: "string \<Rightarrow> string \<Rightarrow> bool" where
  "startswith s p \<longleftrightarrow> take (length p) s = p"

text \<open>\<^verbatim>\<open>s.replace(c, new)\<close> for a one-character \<^verbatim>\<open>c\<close>.\<close>

definition replace_char :: "char \<Rightarrow> string \<Rightarrow> string \<Rightarrow> string" where
  "replace_char c new s = concat (map (\<lambda>x. if x = c then new else [x]) s)"

text \<open>
  \<^verbatim>\<open>s.replace(old, new)\<close>: the non-overlapping occurrences from the left; an empty
  \<^verbatim>\<open>old\<close> matches before every character and at the end.
\<close>

function py_replace :: "string \<Rightarrow> string \<Rightarrow> string \<Rightarrow> string" where
  "py_replace old new s =
     (if old = [] then new @ concat (map (\<lambda>c. c # new) s)
      else if s = [] then []
      else if startswith s old then new @ py_replace old new (drop (length old) s)
      else hd s # py_replace old new (tl s))"
  by pat_completeness auto
termination
  by (relation "measure (\<lambda>(old, new, s). length s)") auto

text \<open>\<^verbatim>\<open>sep.join(xs)\<close>.\<close>

fun join :: "string \<Rightarrow> string list \<Rightarrow> string" where
  "join sep [] = []"
| "join sep [x] = x"
| "join sep (x # y # xs) = x @ sep @ join sep (y # xs)"

text \<open>\<^verbatim>\<open>"{:{width}}".format(s, width=n)\<close>: left-justified in \<open>n\<close> columns.\<close>

definition ljust :: "nat \<Rightarrow> string \<Rightarrow> string" where
  "ljust n s = s @ replicate (n - length s) CHR '' ''"

definition ascii_lower :: "char \<Rightarrow> char" where
  "ascii_lower c =
     (case map_of (zip ''ABCDEFGHIJKLMNOPQRSTUVWXYZ'' ''abcdefghijklmnopqrstuvwxyz'') c of
        Some l \<Rightarrow> l
      | None \<Rightarrow> c)"

definition is_alpha :: "char \<Rightarrow> bool" where
  "is_alpha c \<longleftrightarrow> (CHR ''a'' \<le> c \<and> c \<le> CHR ''z'') \<or> (CHR ''A'' \<le> c \<and> c \<le> CHR ''Z'')"

definition is_digit :: "char \<Rightarrow> bool" where
  "is_digit c \<longleftrightarrow> CHR ''0'' \<le> c \<and> c \<le> CHR ''9''"

subsection \<open>\<^verbatim>\<open>string.Template.safe_substitute\<close>\<close>

text \<open>
  The pattern of \<^verbatim>\<open>string.Template\<close> is, in this order, \<^verbatim>\<open>$$\<close> (an escape, replaced by
  one \<^verbatim>\<open>$\<close>), \<^verbatim>\<open>$identifier\<close>, \<^verbatim>\<open>${identifier}\<close>, and a lone \<^verbatim>\<open>$\<close> (invalid).
  \<^verbatim>\<open>safe_substitute\<close> replaces a named or braced placeholder whose name is a key of the
  mapping and leaves every other match as it is; it never raises.
\<close>

definition is_idstart :: "char \<Rightarrow> bool" where
  "is_idstart c \<longleftrightarrow> c = CHR ''_'' \<or> is_alpha c"

definition is_idchar :: "char \<Rightarrow> bool" where
  "is_idchar c \<longleftrightarrow> is_idstart c \<or> is_digit c"

function safe_substitute :: "(string \<rightharpoonup> string) \<Rightarrow> string \<Rightarrow> string" where
  "safe_substitute m [] = []"
| "safe_substitute m (c # s) =
     (if c \<noteq> CHR ''$'' then c # safe_substitute m s
      else (case s of
          [] \<Rightarrow> [c]
        | d # s' \<Rightarrow>
            if d = CHR ''$'' then CHR ''$'' # safe_substitute m s'
            else if is_idstart d then
              (case m (takeWhile is_idchar s) of
                 Some v \<Rightarrow> v
               | None \<Rightarrow> c # takeWhile is_idchar s)
              @ safe_substitute m (dropWhile is_idchar s)
            else if d = CHR ''{'' \<and> s' \<noteq> [] \<and> is_idstart (hd s')
                    \<and> startswith (dropWhile is_idchar s') ''}'' then
              (case m (takeWhile is_idchar s') of
                 Some v \<Rightarrow> v
               | None \<Rightarrow> c # d # takeWhile is_idchar s' @ ''}'')
              @ safe_substitute m (tl (dropWhile is_idchar s'))
            else c # safe_substitute m s))"
  by pat_completeness auto
termination
  apply (relation "measure (\<lambda>(m, s). length s)")
  apply (auto simp: less_Suc_eq_le length_dropWhile_le le_SucI)
  apply (rule le_trans [OF diff_le_self])
  apply (rule le_SucI)
  apply (rule length_dropWhile_le)
  done


subsection \<open>\<^verbatim>\<open>%\<close> and \<^verbatim>\<open>str.format\<close>\<close>

text \<open>
  \<^verbatim>\<open>fmt % arg\<close> with one string argument. After a \<^verbatim>\<open>%\<close> come a mapping key (an error
  without a mapping), flags, a width, a precision (a \<^verbatim>\<open>*\<close> wants an integer argument:
  an error), a length modifier and the conversion character; the format ending before the
  conversion character is an error. \<open>percent_spec\<close> returns whether the specifier was
  plain (nothing before the conversion), the conversion and the rest of the format.
\<close>

definition percent_spec :: "string \<Rightarrow> (bool \<times> char \<times> string) option" where
  "percent_spec s =
     (if startswith s ''('' then None
      else let s1 = dropWhile (\<lambda>c. c \<in> set ''-+ #0'') s in
        if startswith s1 ''*'' then None
        else let s2 = dropWhile is_digit s1 in
          if startswith s2 ''.*'' then None
          else let s3 = (if startswith s2 ''.'' then dropWhile is_digit (tl s2) else s2);
                   s4 = (if s3 \<noteq> [] \<and> hd s3 \<in> set ''hlL'' then tl s3 else s3)
               in (case s4 of [] \<Rightarrow> None | c # r \<Rightarrow> Some (s4 = s, c, r)))"

text \<open>
  A plain \<^verbatim>\<open>%%\<close> writes a percent sign and takes no argument (with a flag, a width, a
  precision or a length modifier before the second \<^verbatim>\<open>%\<close> it is a \<^verbatim>\<open>ValueError\<close>); a plain
  \<^verbatim>\<open>%s\<close> writes the argument. The flag \<open>used\<close> records that the argument is consumed: a second
  conversion then finds none left, and a format that never consumes it does not convert
  all arguments; both are \<^verbatim>\<open>TypeError\<close>. Every format of this program ends with a fragment
  that holds one plain \<^verbatim>\<open>%s\<close>, so any other conversion before it ends in an error too: it
  rejects a string, is unsupported, or consumes the argument that the \<^verbatim>\<open>%s\<close> then misses.
\<close>

function percent_format :: "bool \<Rightarrow> string \<Rightarrow> string \<Rightarrow> error + string" where
  "percent_format used [] a = (if used then Inr [] else Inl FormatError)"
| "percent_format used (c # s) a =
     (if c \<noteq> CHR ''%'' then map_sum id (Cons c) (percent_format used s a)
      else (case percent_spec s of
          None \<Rightarrow> Inl FormatError
        | Some (plain, conv, r) \<Rightarrow>
            if conv = CHR ''%'' \<and> plain then map_sum id (Cons CHR ''%'') (percent_format used r a)
            else if conv = CHR ''s'' \<and> plain \<and> \<not> used
              then map_sum id ((@) a) (percent_format True r a)
            else Inl FormatError))"
  by pat_completeness auto
termination
proof (relation "measure (\<lambda>(used, s, a). length s)", goal_cases)
  case 1
  show ?case by simp
next
  case (2 used c s a)
  show ?case by simp
next
  have spec_len: "length r < Suc (length s)" if "percent_spec s = Some (p, cv, r)"
    for s p cv r
  proof -
    have a: "length (dropWhile P xs) \<le> length xs" for P and xs :: string
      by (rule length_dropWhile_le)
    have b: "length (tl xs) \<le> length xs" for xs :: string
      by simp
    define s1 where "s1 = dropWhile (\<lambda>c. c \<in> set ''-+ #0'') s"
    define s2 where "s2 = dropWhile is_digit s1"
    define s3 where "s3 = (if startswith s2 ''.'' then dropWhile is_digit (tl s2) else s2)"
    define s4 where "s4 = (if s3 \<noteq> [] \<and> hd s3 \<in> set ''hlL'' then tl s3 else s3)"
    have l1: "length s1 \<le> length s" unfolding s1_def by (rule a)
    have l2: "length s2 \<le> length s1" unfolding s2_def by (rule a)
    have l3: "length s3 \<le> length s2" unfolding s3_def
      using a [of is_digit "tl s2"] b [of s2] by (simp del: length_tl)
    have l4: "length s4 \<le> length s3" unfolding s4_def using b [of s3] by (simp del: length_tl)
    have "percent_spec s =
        (if startswith s ''('' then None
         else if startswith s1 ''*'' then None
         else if startswith s2 ''.*'' then None
         else (case s4 of [] \<Rightarrow> None | c # r \<Rightarrow> Some (s4 = s, c, r)))"
      unfolding percent_spec_def Let_def s4_def s3_def s2_def s1_def by (rule refl)
    with that have "s4 = cv # r"
      by (simp split: if_splits list.splits)
    then have "length r < length s4" by simp
    with l1 l2 l3 l4 show ?thesis by linarith
  qed
  {
    case 3
    then show ?case by (auto dest: spec_len)
  next
    case 4
    then show ?case by (auto dest: spec_len)
  }
qed

text \<open>
  \<^verbatim>\<open>fmt.format(*args)\<close> for the formats of this program: \<^verbatim>\<open>{{\<close> and \<^verbatim>\<open>}}\<close> are
  escapes, \<^verbatim>\<open>{}\<close> takes the next argument, any other brace is an error.
\<close>

fun py_format :: "string \<Rightarrow> string list \<Rightarrow> error + string" where
  "py_format [] args = Inr []"
| "py_format [c] args = (if c = CHR ''{'' \<or> c = CHR ''}'' then Inl FormatError else Inr [c])"
| "py_format (c # d # s) args =
     (if c = CHR ''{'' \<and> d = CHR ''{'' then map_sum id (Cons c) (py_format s args)
      else if c = CHR ''}'' \<and> d = CHR ''}'' then map_sum id (Cons c) (py_format s args)
      else if c = CHR ''{'' \<and> d = CHR ''}'' then
        (case args of [] \<Rightarrow> Inl FormatError
         | a # args' \<Rightarrow> map_sum id ((@) a) (py_format s args'))
      else if c = CHR ''{'' \<or> c = CHR ''}'' then Inl FormatError
      else map_sum id (Cons c) (py_format (d # s) args))"

subsection \<open>\<^verbatim>\<open>textwrap.indent\<close>\<close>

text \<open>
  \<^verbatim>\<open>str.splitlines(True)\<close>: a line ends after a line boundary, which stays in the line;
  a carriage return directly before a line feed is not a boundary of its own.
\<close>

definition is_linebreak :: "char \<Rightarrow> bool" where
  "is_linebreak c \<longleftrightarrow> c \<in> {CHR 0x0A, CHR 0x0B, CHR 0x0C, CHR 0x0D,
     CHR 0x1C, CHR 0x1D, CHR 0x1E, CHR 0x85}"

fun splitlines_acc :: "string \<Rightarrow> string \<Rightarrow> string list" where
  "splitlines_acc acc [] = (if acc = [] then [] else [rev acc])"
| "splitlines_acc acc (c # s) =
     (if is_linebreak c \<and> \<not> (c = CHR 0x0D \<and> startswith s nl)
      then rev (c # acc) # splitlines_acc [] s
      else splitlines_acc (c # acc) s)"

definition splitlines_keepends :: "string \<Rightarrow> string list" where
  "splitlines_keepends s = splitlines_acc [] s"

text \<open>\<^verbatim>\<open>textwrap.indent(text, prefix)\<close> prefixes the lines that are not all whitespace.\<close>

definition indent :: "string \<Rightarrow> string \<Rightarrow> string" where
  "indent text prefix =
     concat (map (\<lambda>line. if py_strip line \<noteq> [] then prefix @ line else line)
                 (splitlines_keepends text))"

subsection \<open>The regular expressions of the generator\<close>

text \<open>
  \<^verbatim>\<open>re.sub('^[\t ]*# [^A-Z].+\n', '', parser, flags=re.MULTILINE)\<close>. A match starts at
  the start of a line: blanks, \<^verbatim>\<open># \<close>, one character that is not an upper-case letter
  (it may be a line feed), then at least one character up to the next line feed, and that
  line feed. \<open>match_comment_line\<close> returns the text after the match.
\<close>

definition match_comment_line :: "string \<Rightarrow> string option" where
  "match_comment_line s =
     (case dropWhile (\<lambda>c. c = CHR 0x09 \<or> c = CHR '' '') s of
        h # sp # c # r \<Rightarrow>
          if h = CHR ''#'' \<and> sp = CHR '' '' \<and> \<not> (CHR ''A'' \<le> c \<and> c \<le> CHR ''Z'')
             \<and> takeWhile (\<lambda>x. x \<noteq> CHR 0x0A) r \<noteq> []
             \<and> dropWhile (\<lambda>x. x \<noteq> CHR 0x0A) r \<noteq> []
          then Some (tl (dropWhile (\<lambda>x. x \<noteq> CHR 0x0A) r))
          else None
      | _ \<Rightarrow> None)"

text \<open>
  The substitution looks at the start of every line; a line that does not match is
  copied with its line feed, and the search resumes after a match, again at the start
  of a line.
\<close>

function strip_comment_lines :: "string \<Rightarrow> string" where
  "strip_comment_lines s =
     (if s = [] then []
      else (case match_comment_line s of
          Some rest \<Rightarrow> strip_comment_lines rest
        | None \<Rightarrow>
            takeWhile (\<lambda>x. x \<noteq> CHR 0x0A) s
            @ (case dropWhile (\<lambda>x. x \<noteq> CHR 0x0A) s of
                 [] \<Rightarrow> []
               | n # rest \<Rightarrow> n # strip_comment_lines rest)))"
  by pat_completeness auto
termination
proof (relation "measure length", goal_cases)
  case 1
  show ?case by simp
next
  case (2 s n rest)
  have "length (dropWhile (\<lambda>x. x \<noteq> CHR 0x0A) s) \<le> length s"
    by (rule length_dropWhile_le)
  with 2 show ?case by simp
next
  case (3 s rest)
  have a: "length (dropWhile P xs) \<le> length xs" for P and xs :: string
    by (rule length_dropWhile_le)
  from 3 obtain h sp c r where
      d: "dropWhile (\<lambda>c. c = CHR 0x09 \<or> c = CHR '' '') s = h # sp # c # r"
      and r: "rest = tl (dropWhile (\<lambda>x. x \<noteq> CHR 0x0A) r)"
    unfolding match_comment_line_def by (auto split: list.splits if_splits)
  have "length rest \<le> length r"
    unfolding r using a [of "\<lambda>x. x \<noteq> CHR 0x0A" r] by simp
  moreover have "length (h # sp # c # r) \<le> length s"
    unfolding d [symmetric] by (rule a)
  ultimately show ?case by simp
qed

text \<open>
  \<^verbatim>\<open>re.sub('  +# .+', '', parser)\<close>: two or more spaces, \<^verbatim>\<open># \<close> and at least one more
  character of the line; the match runs to the end of the line. Inside a run of spaces
  every start sees the same continuation, so a run that does not match is copied whole.
\<close>

function strip_inline_comments :: "string \<Rightarrow> string" where
  "strip_inline_comments [] = []"
| "strip_inline_comments (c # s) =
     (if c \<noteq> CHR '' '' then c # strip_inline_comments s
      else if takeWhile (\<lambda>x. x = CHR '' '') s \<noteq> []
              \<and> (case dropWhile (\<lambda>x. x = CHR '' '') s of
                    h # sp # x # r \<Rightarrow> h = CHR ''#'' \<and> sp = CHR '' '' \<and> x \<noteq> CHR 0x0A
                  | _ \<Rightarrow> False)
      then strip_inline_comments (dropWhile (\<lambda>x. x \<noteq> CHR 0x0A) (dropWhile (\<lambda>x. x = CHR '' '') s))
      else c # takeWhile (\<lambda>x. x = CHR '' '') s
           @ strip_inline_comments (dropWhile (\<lambda>x. x = CHR '' '') s))"
  by pat_completeness auto
termination
proof (relation "measure length", goal_cases)
  case 1
  show ?case by simp
next
  case (2 c s)
  show ?case by simp
next
  case (3 c s)
  have "length (dropWhile (\<lambda>x. x \<noteq> CHR 0x0A) (dropWhile (\<lambda>x. x = CHR '' '') s))
          \<le> length (dropWhile (\<lambda>x. x = CHR '' '') s)"
    by (rule length_dropWhile_le)
  also have "\<dots> \<le> length s" by (rule length_dropWhile_le)
  finally show ?case by simp
next
  case (4 c s)
  have "length (dropWhile (\<lambda>x. x = CHR '' '') s) \<le> length s" by (rule length_dropWhile_le)
  then show ?case by simp
qed

text \<open>
  The prefix \<^verbatim>\<open>usage:\s+\<close> of the two usage patterns, matched without regard to case:
  the length of the prefix when \<open>s\<close> starts with it and a non-blank character follows.
\<close>

definition usage_prefix :: "string \<Rightarrow> nat option" where
  "usage_prefix s =
     (if map ascii_lower (take 6 s) = ''usage:''
         \<and> takeWhile py_isspace (drop 6 s) \<noteq> []
         \<and> dropWhile py_isspace (drop 6 s) \<noteq> []
      then Some (6 + length (takeWhile py_isspace (drop 6 s)))
      else None)"

text \<open>\<^verbatim>\<open>re.search(r'usage:\s+(\S+)', usage_msg, re.IGNORECASE)\<close>: group 1 of the first match.\<close>

fun search_usage_cmd :: "string \<Rightarrow> string option" where
  "search_usage_cmd [] = None"
| "search_usage_cmd (c # s) =
     (case usage_prefix (c # s) of
        Some n \<Rightarrow> Some (takeWhile (\<lambda>x. \<not> py_isspace x) (drop n (c # s)))
      | None \<Rightarrow> search_usage_cmd s)"

text \<open>
  \<^verbatim>\<open>re.sub(r'^(usage:\s+)\S+', '\g<1>$CMD', usage_msg, count=1, flags=re.IGNORECASE)\<close>:
  only at the start of the text.
\<close>

definition sub_usage_cmd :: "string \<Rightarrow> string" where
  "sub_usage_cmd s =
     (case usage_prefix s of
        Some n \<Rightarrow> take n s @ ''$CMD'' @ dropWhile (\<lambda>x. \<not> py_isspace x) (drop n s)
      | None \<Rightarrow> s)"

text \<open>
  \<^verbatim>\<open>re.sub('^[ \t]+-', 'options:\n\\g<0>', docopt_doc, count=1, flags=re.MULTILINE)\<close>:
  the header goes before the first line that starts with blanks and a dash. The flag
  says that the text is at the start of a line.
\<close>

fun add_options_header :: "bool \<Rightarrow> string \<Rightarrow> string" where
  "add_options_header bol [] = []"
| "add_options_header bol (c # s) =
     (if bol \<and> (c = CHR '' '' \<or> c = CHR 0x09)
         \<and> startswith (dropWhile (\<lambda>x. x = CHR '' '' \<or> x = CHR 0x09) s) ''-''
      then ''options:'' @ nl @ c # s
      else c # add_options_header (c = CHR 0x0A) s)"


section \<open>The fragments of the generator\<close>

text \<open>The string constants of \<^verbatim>\<open>sopix.py\<close>, line by line.\<close>

definition PARSER_TEMPLATE :: string where
  \<open>PARSER_TEMPLATE =
    ''${__SHEBANG__}'' @ nl @
    nl @
    ''CMD=${__CMD__}${__STRIP_EXT__}'' @ nl @
    ''USAGE="${__USAGE_MSG__}"${__HELP__}'' @ nl @
    nl @
    ''# Convenience functions'' @ nl @
    ''${__HELPERS__}'' @ nl @
    nl @
    ''# Parse command-line options${__RANDOM_EOL__}'' @ nl @
    ''set -- "$@" "${EOL:=$(printf '' @ sq @ bs @ ''1'' @ bs @ ''3'' @ bs @ ''3'' @ bs @ ''7\')}"  # end-of-line-marker${__AUX_VARS__}'' @ nl @
    ''while [ "$1" != "$EOL" ]; do'' @ nl @
    tb @ ''opt="$1"; shift'' @ nl @
    tb @ ''case "$opt" in'' @ nl @
    nl @
    tb @ tb @ ''#EDIT HERE: defined options'' @ nl @
    tb @ tb @ ''${__CASES__}'' @ nl @
    tb @ tb @ ''-h | --help ) ${__ASSERT_NOARG__}printf "%s'' @ bs @ ''n" "${__HELP_VAR__}"; exit 0;;'' @ nl @
    nl @
    tb @ tb @ ''# parse remaining arguments as positional'' @ nl @
    tb @ tb @ ''--) while [ "$1" != "$EOL" ]; do set -- "$@" "$1"; shift; done;;'' @ nl @
    tb @ tb @ ''# long options: convert "--opt=arg" to "--opt" "arg"'' @ nl @
    tb @ tb @ ''--[!=]*=*) ${__LONG_OPTION__}'' @ nl @
    tb @ tb @ ''# invalid or unknown options'' @ nl @
    tb @ tb @ ''${__BAD_OPTION__}'' @ nl @
    tb @ tb @ ''# short options: convert "-abc" to "-a" "-bc"'' @ nl @
    tb @ tb @ ''-?*) ${__SHORT_OPTION__}'' @ nl @
    tb @ tb @ ''# positional argument, rotate to the end'' @ nl @
    tb @ tb @ ''*) set -- "$@" "$opt";;'' @ nl @
    tb @ ''esac'' @ nl @
    ''done; shift  # $EOL'' @ nl @
    nl @
    ''# Set/unset variables${__DEFAULTS__}'' @ nl @
    ''unset ${__UNSET_VARS__}'' @ nl @
    ''unset -f ${__UNSET_FUNCS__}'' @ nl @
    nl @
    ''${__DEBUG_PRINT__}'' @ nl\<close>

definition HELPERS_FULL :: string where
  \<open>HELPERS_FULL =
    ''assert_arg () {'' @ nl @
    tb @ ''if [ "$1" = "$EOL" ] ||'' @ nl @
    tb @ tb @ tb @ ''{ [ "$1" = \'--\' ] && [ "$2" != "--" ]; } ||'' @ nl @
    tb @ tb @ tb @ ''{ [ "${3%?}" = \'-\' ] && [ "$3" = "$4" ]; }'' @ nl @
    tb @ tb @ ''then exit_usage "missing argument for option \'$3\'"'' @ nl @
    tb @ ''fi'' @ nl @
    ''}'' @ nl @
    ''assert_noarg () {  # for long options only'' @ nl @
    tb @ ''if [ "$1" = "$2" ]'' @ nl @
    tb @ tb @ ''then exit_usage "option \'$2\' doesn\'t accept arguments"'' @ nl @
    tb @ ''fi'' @ nl @
    ''}'' @ nl @
    ''exit_error () { printf >&2 "%s:  ERROR: %s'' @ bs @ ''n" "$CMD" "$1"; exit "${2-1}"; }  # default exit status: 1'' @ nl @
    ''exit_usage () { printf >&2 "%s:  %s'' @ bs @ ''n%s'' @ bs @ ''n" "$CMD" "$1" "$USAGE"; exit 2; }''\<close>

definition HELPERS_MINIMAL :: string where
  \<open>HELPERS_MINIMAL =
    ''exit2 () { printf >&2 "%s:  %s: \'%s'' @ sq @ bs @ ''n%s'' @ bs @ ''n" "$CMD" "$1" "$2" "$USAGE"; exit 2; }'' @ nl @
    ''check () { { [ "$1" != "$EOL" ] && [ "$1" != \'--\' ]; } || exit2 "missing argument" "$2"; }''\<close>

definition BAD_OPTION_FULL :: string where
  \<open>BAD_OPTION_FULL =
    ''--*[!-a-z0-9]* | --*--*) exit_usage "invalid option: \'$opt\'";;'' @ nl @
    tb @ tb @ ''--[a-z0-9]*[a-z0-9])     exit_usage "unknown long option: \'$opt\'";;'' @ nl @
    tb @ tb @ ''-*[!A-Za-z0-9]*)         exit_usage "invalid option: \'$opt\'";;'' @ nl @
    tb @ tb @ ''-[A-Za-z0-9])            exit_usage "unknown short option: \'$opt\'";;''\<close>

definition BAD_OPTION_MINIMAL :: string where
  \<open>BAD_OPTION_MINIMAL =
    ''-[A-Za-z0-9] | -*[!A-Za-z0-9]*) exit2 "invalid option" "$opt";;''\<close>

definition RANDOM_EOL :: string where
  \<open>RANDOM_EOL =
    nl @
    ''if [ -c /dev/random ]  # try to obtain a random string'' @ nl @
    tb @ ''then EOL=$(dd 2>/dev/null if=/dev/random bs=8 count=1 | od -t x8 -A n)'' @ nl @
    ''fi  # fall back to a fixed *binary* string if it fails''\<close>

definition DEBUG_PRINT :: string where
  \<open>DEBUG_PRINT =
    ''# Print collected options and arguments'' @ nl @
    ''${{__DEBUG_IF__}}for var in {}'' @ nl @
    tb @ ''do eval "printf '' @ bs @ ''"%s = \'%s'' @ sq @ bs @ ''n'' @ bs @ ''" \'$var\' '' @ bs @ ''"'' @ bs @ ''${{opt_$var-}}'' @ bs @ ''""'' @ nl @
    ''done && printf "'' @ bs @ ''$@ = (%s)'' @ bs @ ''n" "$*"'' @ nl\<close>

definition DOC_EXAMPLE :: string where
  \<open>DOC_EXAMPLE =
    ''This is brief description of what the program does.'' @ nl @
    nl @
    ''  -h, --help            show this message'' @ nl @
    ''  -f, --flag            do stuff differently'' @ nl @
    ''  -n TEXT, --name=TEXT  use TEXT as name [default: Alice]'' @ nl @
    ''  --only-long           option without short version'' @ nl @
    ''  -v                    verbose mode'' @ nl\<close>

text \<open>The dictionary \<^verbatim>\<open>SNIPPET\<close>; an entry with the keys \<^verbatim>\<open>False\<close> and \<^verbatim>\<open>True\<close> is a function of \<^verbatim>\<open>minimal\<close>.\<close>

definition SNIPPET_shebang :: string where
  \<open>SNIPPET_shebang =
    ''/bin/sh -eu''\<close>

definition SNIPPET_cmd :: string where
  \<open>SNIPPET_cmd =
    ''"${0##*/}"''\<close>

definition SNIPPET_strip_ext :: string where
  \<open>SNIPPET_strip_ext =
    ''; [ "${CMD%.*}" ] && CMD="${CMD%.*}"  # "bin/script.sh" -> "script"''\<close>

definition SNIPPET_help :: string where
  \<open>SNIPPET_help =
    nl @
    ''HELP_MSG="${__HELP_MSG__}"''\<close>

definition SNIPPET_aux_vars :: "bool \<Rightarrow> string" where
  \<open>SNIPPET_aux_vars mini =
    (if mini then
      ''''
     else
      nl @
      ''long=; short=; val=  # last long/short option/value split'' @ nl)\<close>

definition SNIPPET_assert_arg :: "bool \<Rightarrow> string" where
  \<open>SNIPPET_assert_arg mini =
    (if mini then
      ''check "$1" "$opt"; opt_%s="$1"; shift;;''
     else
      ''assert_arg "$1" "$val" "$opt" "$short"; opt_%s="$1"; shift;;'')\<close>

definition SNIPPET_assert_noarg :: "bool \<Rightarrow> string" where
  \<open>SNIPPET_assert_noarg mini =
    (if mini then
      ''''
     else
      ''assert_noarg "$opt" "$long"; '')\<close>

definition SNIPPET_long_option :: "bool \<Rightarrow> string" where
  \<open>SNIPPET_long_option mini =
    (if mini then
      ''set -- "${opt%%=*}" "${opt#*=}" "$@";;''
     else
      ''long="${opt%%=*}"; val="${opt#*=}"; set -- "$long" "$val" "$@";;'')\<close>

definition SNIPPET_short_option :: "bool \<Rightarrow> string" where
  \<open>SNIPPET_short_option mini =
    (if mini then
      ''other="${opt#-?}"; set -- "${opt%$other}" "-${other}" "$@";;''
     else
      ''other="${opt#-?}"; short="${opt%$other}"; set -- "$short" "-${other}" "$@";;'')\<close>

definition SNIPPET_unset_vars :: "bool \<Rightarrow> string" where
  \<open>SNIPPET_unset_vars mini =
    (if mini then
      ''CMD EOL USAGE opt other''
     else
      ''EOL HELP long opt other short val # CMD USAGE'')\<close>

definition SNIPPET_unset_funcs :: "bool \<Rightarrow> string" where
  \<open>SNIPPET_unset_funcs mini =
    (if mini then
      ''check exit2''
     else
      ''assert_arg assert_noarg # exit_error exit_usage'')\<close>

definition SNIPPET_debug_if :: string where
  \<open>SNIPPET_debug_if =
    ''[ "${SOPIX_DEBUG-}" ] && ''\<close>

definition SNIPPET_helpers :: "bool \<Rightarrow> string" where
  "SNIPPET_helpers mini = (if mini then HELPERS_MINIMAL else HELPERS_FULL)"

definition SNIPPET_bad_option :: "bool \<Rightarrow> string" where
  "SNIPPET_bad_option mini = (if mini then BAD_OPTION_MINIMAL else BAD_OPTION_FULL)"


section \<open>The option model\<close>

text \<open>
  \<^verbatim>\<open>docopt.Option\<close>: the two spellings, the number of arguments (0 or 1) and the default
  value. \<^verbatim>\<open>None\<close> is \<open>None\<close>; docopt compares and hashes options by their \<^verbatim>\<open>repr\<close>,
  which shows the four fields, so equality of options is equality of records.
\<close>

record doc_option =
  short :: "string option"
  long :: "string option"
  argcount :: nat
  default_value :: "string option"

text \<open>Python's truth value of an optional string, and \<^verbatim>\<open>x or d\<close>.\<close>

definition truthy :: "string option \<Rightarrow> bool" where
  "truthy x \<longleftrightarrow> (case x of None \<Rightarrow> False | Some s \<Rightarrow> s \<noteq> [])"

definition or_else :: "string option \<Rightarrow> string \<Rightarrow> string" where
  "or_else x d = (case x of None \<Rightarrow> d | Some s \<Rightarrow> if s = [] then d else s)"

text \<open>
  \<^verbatim>\<open>(opt.long or opt.short).lstrip("-").replace("-", "_")\<close>; with no long form and
  \<^verbatim>\<open>short\<close> \<^verbatim>\<open>None\<close> the method call fails.
\<close>

definition opt_name :: "doc_option \<Rightarrow> error + string" where
  "opt_name opt =
     (if truthy (long opt) then Inr (replace_char CHR ''-'' ''_'' (lstrip_char CHR ''-'' (the (long opt))))
      else (case short opt of
          None \<Rightarrow> Inl AttributeError
        | Some s \<Rightarrow> Inr (replace_char CHR ''-'' ''_'' (lstrip_char CHR ''-'' s))))"

text \<open>The key of \<^verbatim>\<open>sorted(options, key=lambda o: (o.long or '', o.short or ''))\<close>.\<close>

definition sort_key_of :: "doc_option \<Rightarrow> string \<times> string" where
  "sort_key_of opt = (or_else (long opt) [], or_else (short opt) [])"

section \<open>\<^verbatim>\<open>generate_parser\<close>\<close>

record gen_args =
  minimal :: bool
  strip_comments :: bool
  expand_tabs :: int
  shebang :: string
  command :: "string option"
  keep_command_ext :: bool
  random_eol :: bool
  debug_print :: "bool option"

text \<open>The default values of the keyword arguments.\<close>

definition default_args :: gen_args where
  "default_args = \<lparr> minimal = False, strip_comments = False, expand_tabs = 4,
     shebang = ''/bin/sh -eu'', command = None, keep_command_ext = False,
     random_eol = False, debug_print = None \<rparr>"

text \<open>The shebang block: the text bound to \<^verbatim>\<open>__SHEBANG__\<close>, or the exception.\<close>

definition shebang_snippet :: "string \<Rightarrow> error + string" where
  "shebang_snippet sb =
     (if sb \<noteq> [] then
        (if CHR 0x0A \<in> set sb \<or> length (py_split sb) > 2 then Inl (InvalidShebang sb)
         else if \<not> startswith sb ''#!'' then Inr (''#!'' @ py_strip sb)
         else Inr sb)
      else Inr sb)"

text \<open>\<^verbatim>\<open>max((len(o.long or '') for o in options), default=0)\<close>.\<close>

definition max_len_of :: "doc_option list \<Rightarrow> nat" where
  "max_len_of options = foldr max (map (\<lambda>opt. length (or_else (long opt) [])) options) 0"

text \<open>
  One round of the loop over the options: \<open>None\<close> for \<^verbatim>\<open>continue\<close>, else the line
  appended to \<^verbatim>\<open>cases\<close> and the pair appended to \<^verbatim>\<open>name_default\<close>.
\<close>

definition option_line :: "bool \<Rightarrow> nat \<Rightarrow> doc_option \<Rightarrow> error + (string \<times> string \<times> string) option" where
  \<open>option_line mini max_len opt =
     (case opt_name opt of
        Inl e \<Rightarrow> Inl e
      | Inr name \<Rightarrow>
          let line = or_else (short opt) ''  ''
                @ (if truthy (short opt) \<and> truthy (long opt) then '' | ''
                   else if max_len \<noteq> 0 then ''   '' else '''')
                @ ljust max_len (or_else (long opt) '''') @ '' ) ''
          in if argcount opt \<noteq> 0 then
               (case percent_format False (line @ SNIPPET_assert_arg mini) name of
                  Inl e \<Rightarrow> Inl e
                | Inr l \<Rightarrow> Inr (Some (l, name,
                    (case default_value opt of
                       None \<Rightarrow> ''''
                     | Some v \<Rightarrow> ''"'' @ replace_char CHR ''"'' (bs @ ''"'') v @ ''"''))))
             else if name = ''help'' then Inr None
             else
               (case percent_format False
                       (line @ (if truthy (long opt) then SNIPPET_assert_noarg mini else '''')
                             @ ''opt_%s="true";;'') name of
                  Inl e \<Rightarrow> Inl e
                | Inr l \<Rightarrow> Inr (Some (l, name, ''''))))\<close>

text \<open>The loop: the first exception ends it.\<close>

fun option_lines :: "bool \<Rightarrow> nat \<Rightarrow> doc_option list \<Rightarrow> error + (string \<times> string \<times> string) list" where
  "option_lines mini max_len [] = Inr []"
| "option_lines mini max_len (opt # options) =
     (case option_line mini max_len opt of
        Inl e \<Rightarrow> Inl e
      | Inr r \<Rightarrow>
          (case option_lines mini max_len options of
             Inl e \<Rightarrow> Inl e
           | Inr rs \<Rightarrow> Inr ((case r of None \<Rightarrow> [] | Some x \<Rightarrow> [x]) @ rs)))"

text \<open>\<^verbatim>\<open>'\n: "%s"' % '" "'.join('${opt_%s=%s}' % n_d for n_d in name_default)\<close>.\<close>

definition defaults_text :: "(string \<times> string) list \<Rightarrow> string" where
  \<open>defaults_text name_default =
     nl @ '': "'' @ join ''" "'' (map (\<lambda>(n, d). ''${opt_'' @ n @ ''='' @ d @ ''}'') name_default) @ ''"''\<close>

text \<open>The names of the placeholders substituted in the first pass.\<close>

definition early_snippets :: "string list" where
  "early_snippets = [''__HELP__'', ''__CASES__'', ''__HELPERS__'', ''__RANDOM_EOL__'',
     ''__BAD_OPTION__'', ''__DEBUG_PRINT__'']"

text \<open>
  The dictionary \<^verbatim>\<open>snippets\<close> at the end of the function, from the parsed docstring, the
  arguments and the results of the blocks above. \<^verbatim>\<open>__HELP_MSG__\<close> has an entry only when
  the help text is not the usage text alone.
\<close>

definition snippets_of ::
  "gen_args \<Rightarrow> string option \<Rightarrow> string \<Rightarrow> string \<Rightarrow> string \<Rightarrow> (string \<times> string \<times> string) list
     \<Rightarrow> string \<Rightarrow> (string \<times> string) list" where
  \<open>snippets_of A parsed_cmd usage_msg help_msg sb arms printf =
     (let resolved_cmd = (if truthy (command A) then command A else parsed_cmd);
          cases = map fst arms;
          name_default = map snd arms
      in [(''__SHEBANG__'', sb),
          (''__CMD__'', or_else resolved_cmd SNIPPET_cmd),
          (''__STRIP_EXT__'', if keep_command_ext A \<or> truthy parsed_cmd then '''' else SNIPPET_strip_ext),
          (''__USAGE_MSG__'', if truthy resolved_cmd then sub_usage_cmd usage_msg else usage_msg)]
         @ (if py_strip help_msg = ''$USAGE''
            then [(''__HELP__'', ''''), (''__HELP_VAR__'', ''$USAGE'')]
            else [(''__HELP__'', SNIPPET_help), (''__HELP_MSG__'', help_msg),
                  (''__HELP_VAR__'', ''$HELP_MSG'')])
         @ [(''__HELPERS__'', SNIPPET_helpers (minimal A)),
            (''__AUX_VARS__'', SNIPPET_aux_vars (minimal A)),
            (''__RANDOM_EOL__'', if random_eol A then RANDOM_EOL else ''''),
            (''__CASES__'', lstrip_char CHR 0x09 (indent (join nl cases) (tb @ tb))),
            (''__ASSERT_NOARG__'', SNIPPET_assert_noarg (minimal A)),
            (''__LONG_OPTION__'', SNIPPET_long_option (minimal A)),
            (''__SHORT_OPTION__'', SNIPPET_short_option (minimal A)),
            (''__BAD_OPTION__'', SNIPPET_bad_option (minimal A)),
            (''__DEFAULTS__'', if minimal A then '''' else defaults_text name_default),
            (''__UNSET_VARS__'', SNIPPET_unset_vars (minimal A)),
            (''__UNSET_FUNCS__'', SNIPPET_unset_funcs (minimal A)),
            (''__DEBUG_IF__'', if debug_print A = None then SNIPPET_debug_if else ''''),
            (''__DEBUG_PRINT__'', printf)])\<close>

text \<open>
  The block "Generate parser": the first pass with the early snippets, the tabs, the
  second pass with all snippets, the comments, and the final \<^verbatim>\<open>strip\<close>.
\<close>

definition assemble :: "gen_args \<Rightarrow> (string \<times> string) list \<Rightarrow> string" where
  "assemble A snippets =
     (let parser1 = safe_substitute (map_of snippets |` set early_snippets) PARSER_TEMPLATE;
          parser2 = (if expand_tabs A > 0
                     then replace_char CHR 0x09 (replicate (nat (expand_tabs A)) CHR '' '') parser1
                     else parser1);
          parser3 = safe_substitute (map_of snippets) parser2;
          parser4 = (if strip_comments A
                     then strip_inline_comments (strip_comment_lines parser3)
                     else parser3)
      in py_strip parser4 @ nl)"

text \<open>
  The function after \<^verbatim>\<open>_parse_docstring\<close> has returned: the exceptions of the shebang
  block, of the option loop and of the debug block, in this order, else the text.
\<close>

definition emit_parser ::
  "gen_args \<Rightarrow> string option \<times> string \<times> string \<times> doc_option list \<Rightarrow> error + string" where
  "emit_parser A parsed =
     (case parsed of (parsed_cmd, usage_msg, help_msg, options) \<Rightarrow>
      (case shebang_snippet (shebang A) of
         Inl e \<Rightarrow> Inl e
       | Inr sb \<Rightarrow>
          (case option_lines (minimal A) (max_len_of options) options of
             Inl e \<Rightarrow> Inl e
           | Inr arms \<Rightarrow>
              (case (if debug_print A = Some False then Inr []
                     else py_format DEBUG_PRINT [join '' '' (map (\<lambda>(l, n, d). n) arms)]) of
                 Inl e \<Rightarrow> Inl e
               | Inr printf \<Rightarrow>
                   Inr (assemble A (snippets_of A parsed_cmd usage_msg help_msg sb arms printf))))))"


section \<open>\<^verbatim>\<open>_parse_docstring\<close>\<close>

text \<open>
  The syntax of the docstring is parsed by the library \<^verbatim>\<open>docopt\<close>, which is not part of
  the generator. The functions the generator calls are the fields of one record:
  \<^item> \<open>parse_section name doc\<close>, the stripped sections of \<open>doc\<close> whose header holds \<open>name\<close>;
  \<^item> \<open>formal_usage section\<close>, the words after the first colon of \<open>section\<close> as a pattern:
    \<^verbatim>\<open>partition\<close>, \<^verbatim>\<open>split\<close> and \<^verbatim>\<open>join\<close> on a string, which raise nothing;
  \<^item> \<open>parse_defaults doc\<close>, the options of the option lines of \<open>doc\<close>, or the error it
    raises;
  \<^item> \<open>parse_pattern formal defaults\<close>, with \<^verbatim>\<open>pattern.flat(docopt.Option)\<close> applied to its
    result: \<open>None\<close> when it raises \<^verbatim>\<open>DocoptLanguageError\<close>, else the options of the
    pattern and the list \<open>defaults\<close> as the call leaves it (the call appends options
    it meets in the usage pattern);
  \<^item> \<open>hash_slot\<close>, the place of an option in the hash table of a \<^verbatim>\<open>set\<close>. It hashes the
    \<^verbatim>\<open>repr\<close> string of the option, and the hash of a string is seeded anew for every
    Python process, so it is an input of its own and not a function of the docstring.
\<close>

record docopt =
  parse_section :: "string \<Rightarrow> string \<Rightarrow> string list"
  formal_usage :: "string \<Rightarrow> string"
  parse_defaults :: "string \<Rightarrow> error + doc_option list"
  parse_pattern :: "string \<Rightarrow> doc_option list \<Rightarrow> (doc_option list \<times> doc_option list) option"
  hash_slot :: "doc_option \<Rightarrow> nat"

text \<open>
  Iterating over \<^verbatim>\<open>set(xs)\<close>: every element once, in the order of the slots; elements
  are inserted in the order of \<open>xs\<close>.
\<close>

definition set_iter :: "('a \<Rightarrow> nat) \<Rightarrow> 'a list \<Rightarrow> 'a list" where
  "set_iter slot xs = sort_key slot (remdups xs)"

text \<open>
  \<^verbatim>\<open>options = set(options); options.update(defaults)\<close> and
  \<^verbatim>\<open>sorted(options, key=lambda o: (o.long or '', o.short or ''))\<close>; the sort is stable.
\<close>

definition sorted_options :: "(doc_option \<Rightarrow> nat) \<Rightarrow> doc_option list \<Rightarrow> doc_option list \<Rightarrow> doc_option list" where
  "sorted_options slot options defaults = sort_key sort_key_of (set_iter slot (options @ defaults))"

definition placeholder_usage :: string where
  "placeholder_usage = ''Usage:  $CMD [options] [ARGS...]''"

text \<open>
  The usage line made from the options when the docstring has no usage section. An
  option with neither spelling has \<^verbatim>\<open>s = None\<close>: \<^verbatim>\<open>s.startswith\<close> fails when it takes an
  argument and \<^verbatim>\<open>join\<close> fails after the loop otherwise.
\<close>

definition usage_item :: "doc_option \<Rightarrow> error + string option" where
  "usage_item opt =
     (let s = (if truthy (short opt) then short opt else long opt) in
      if argcount opt \<noteq> 0 then
        (case s of
           None \<Rightarrow> Inl AttributeError
         | Some t \<Rightarrow> Inr (Some (t @ (if startswith t ''--'' then ''=ARG'' else '' ARG''))))
      else Inr s)"

fun usage_items :: "doc_option list \<Rightarrow> doc_option list \<Rightarrow> error + string option list" where
  "usage_items short_flags [] = Inr []"
| "usage_items short_flags (opt # defaults) =
     (if opt \<in> set short_flags then usage_items short_flags defaults
      else (case usage_item opt of
          Inl e \<Rightarrow> Inl e
        | Inr s \<Rightarrow>
            (case usage_items short_flags defaults of
               Inl e \<Rightarrow> Inl e
             | Inr ss \<Rightarrow> Inr (s # ss))))"

definition synthesized_usage :: "doc_option list \<Rightarrow> error + string" where
  "synthesized_usage defaults =
     (let short_flags = remdups (filter (\<lambda>opt. truthy (short opt) \<and> argcount opt = 0) defaults)
      in (case usage_items short_flags defaults of
            Inl e \<Rightarrow> Inl e
          | Inr items \<Rightarrow>
              if None \<in> set items then Inl TypeError
              else
                Inr (''Usage:  $CMD [''
                     @ join ''] [''
                         ((if short_flags \<noteq> []
                           then [''-'' @ sort (map (\<lambda>f. last (the (short f))) short_flags)]
                           else []) @ map the items)
                     @ ''] [ARGS...]'')))"

text \<open>
  The usage section and the command name: none without a usage section; with one, the
  word after \<^verbatim>\<open>usage:\<close>, where \<^verbatim>\<open>re.search\<close> returning \<^verbatim>\<open>None\<close> makes \<^verbatim>\<open>.group(1)\<close>
  fail, and the word \<^verbatim>\<open>$CMD\<close> counts as no command name.
\<close>

definition usage_and_cmd :: "string list \<Rightarrow> error + (string option \<times> string option)" where
  "usage_and_cmd usage_sections =
     (if usage_sections = [] then Inr (None, None)
      else (case search_usage_cmd (hd usage_sections) of
              None \<Rightarrow> Inl AttributeError
            | Some c \<Rightarrow> Inr (Some (hd usage_sections), if c = ''$CMD'' then None else Some c)))"

text \<open>The usage and help messages, once the pattern is parsed.\<close>

definition usage_and_help ::
  "string option \<Rightarrow> doc_option list \<Rightarrow> string \<Rightarrow> error + (string \<times> string)" where
  "usage_and_help usage_msg defaults docstring =
     (case usage_msg of
        None \<Rightarrow>
          (case synthesized_usage defaults of
             Inl e \<Rightarrow> Inl e
           | Inr u \<Rightarrow> Inr (u, ''$USAGE'' @ nl @ nl @ py_strip docstring))
      | Some u \<Rightarrow> Inr (u, py_strip (py_replace u ''$USAGE'' docstring)))"

text \<open>The text handed to \<^verbatim>\<open>docopt.parse_defaults\<close>.\<close>

definition docopt_doc_of :: "docopt \<Rightarrow> string list \<Rightarrow> string \<Rightarrow> string" where
  "docopt_doc_of D usage_sections docstring =
     (let docopt_doc = (if parse_section D ''options:'' docstring = []
                        then add_options_header True docstring else docstring)
      in if usage_sections = [] then placeholder_usage @ nl @ nl @ docopt_doc else docopt_doc)"

definition parse_docstring ::
  "docopt \<Rightarrow> string \<Rightarrow> error + (string option \<times> string \<times> string \<times> doc_option list)" where
  "parse_docstring D docstring =
     (let usage_sections = parse_section D ''usage:'' docstring in
      if length usage_sections > 1 then Inl GrammarError
      else
        (case usage_and_cmd usage_sections of
           Inl e \<Rightarrow> Inl e
         | Inr (usage_msg, parsed_cmd) \<Rightarrow>
            (let formal = formal_usage D (or_else usage_msg placeholder_usage) in
             case parse_defaults D (docopt_doc_of D usage_sections docstring) of
               Inl e \<Rightarrow> Inl e
             | Inr table \<Rightarrow>
                (case parse_pattern D formal table of
                   None \<Rightarrow> Inl GrammarError
                 | Some (options, defaults) \<Rightarrow>
                    (case usage_and_help usage_msg defaults docstring of
                       Inl e \<Rightarrow> Inl e
                     | Inr (usage_msg, help_msg) \<Rightarrow>
                         Inr (parsed_cmd, usage_msg, help_msg,
                              sorted_options (hash_slot D) options defaults))))))"

text \<open>The whole function: parse, then emit.\<close>

definition generate_parser :: "docopt \<Rightarrow> string \<Rightarrow> gen_args \<Rightarrow> error + string" where
  "generate_parser D docstring A =
     (case parse_docstring D docstring of
        Inl e \<Rightarrow> Inl e
      | Inr parsed \<Rightarrow> emit_parser A parsed)"

section \<open>The wrapper script\<close>

text \<open>
  The command line of \<^verbatim>\<open>sopix\<close> after \<^verbatim>\<open>docopt\<close> and the integer check: the flags, and
  the text read from the input. The block "Coupled options" and the call of
  \<^verbatim>\<open>generate_parser\<close> follow the source.
\<close>

record cli_args =
  cli_example :: bool
  cli_full_example :: bool
  cli_minimal :: bool
  cli_strip_comments :: bool
  cli_expand_tabs :: int
  cli_shebang :: string
  cli_command :: "string option"
  cli_keep_command_ext :: bool
  cli_random_eol :: bool
  cli_debug_print :: bool
  cli_no_debug_print :: bool
  cli_input :: string

definition coupled_options :: "cli_args \<Rightarrow> gen_args" where
  "coupled_options arg =
     (let mini = (cli_example arg \<or> cli_minimal arg);
          keep = (cli_example arg \<or> cli_keep_command_ext arg);
          dbg = (cli_example arg \<or> cli_full_example arg \<or> cli_debug_print arg)
      in \<lparr> minimal = mini,
           strip_comments = (cli_strip_comments arg \<or> mini),
           expand_tabs = cli_expand_tabs arg,
           shebang = (if cli_example arg then '''' else cli_shebang arg),
           command = cli_command arg,
           keep_command_ext = (keep \<or> cli_command arg \<noteq> None),
           random_eol = cli_random_eol arg,
           debug_print = (if dbg then Some True
                          else if cli_no_debug_print arg then Some False else None) \<rparr>)"

definition main :: "docopt \<Rightarrow> cli_args \<Rightarrow> error + string" where
  "main D arg =
     generate_parser D
       (if cli_example arg \<or> cli_full_example arg then DOC_EXAMPLE else cli_input arg)
       (coupled_options arg)"


section \<open>The generated parser\<close>

text \<open>
  What the emitted text does when a shell runs it. The loop of \<open>PARSER_TEMPLATE\<close> is
  modelled arm by arm, with the fragments of \<open>SNIPPET\<close> for either rendering; the
  positional parameters are a list, the variables \<^verbatim>\<open>opt_*\<close> a map.
\<close>

subsection \<open>Patterns of \<^verbatim>\<open>case\<close>\<close>

text \<open>
  A pattern is a list of items: a literal character, \<^verbatim>\<open>?\<close>, \<^verbatim>\<open>*\<close>, a bracket expression
  \<^verbatim>\<open>[...]\<close> and a negated one \<^verbatim>\<open>[!...]\<close>, both given by the characters they list.
\<close>

datatype glob = Lit char | AnyChar | Star | OneOf "char \<Rightarrow> bool" | NoneOf "char \<Rightarrow> bool"

fun glob_match :: "glob list \<Rightarrow> string \<Rightarrow> bool" where
  "glob_match [] s \<longleftrightarrow> s = []"
| "glob_match (Star # ps) [] \<longleftrightarrow> glob_match ps []"
| "glob_match (Star # ps) (x # s) \<longleftrightarrow> glob_match ps (x # s) \<or> glob_match (Star # ps) s"
| "glob_match (Lit c # ps) [] \<longleftrightarrow> False"
| "glob_match (Lit c # ps) (x # s) \<longleftrightarrow> x = c \<and> glob_match ps s"
| "glob_match (AnyChar # ps) [] \<longleftrightarrow> False"
| "glob_match (AnyChar # ps) (x # s) \<longleftrightarrow> glob_match ps s"
| "glob_match (OneOf P # ps) [] \<longleftrightarrow> False"
| "glob_match (OneOf P # ps) (x # s) \<longleftrightarrow> P x \<and> glob_match ps s"
| "glob_match (NoneOf P # ps) [] \<longleftrightarrow> False"
| "glob_match (NoneOf P # ps) (x # s) \<longleftrightarrow> \<not> P x \<and> glob_match ps s"

definition is_lower :: "char \<Rightarrow> bool" where
  "is_lower c \<longleftrightarrow> CHR ''a'' \<le> c \<and> c \<le> CHR ''z''"

text \<open>The bracket expressions \<^verbatim>\<open>[-a-z0-9]\<close>, \<^verbatim>\<open>[a-z0-9]\<close> and \<^verbatim>\<open>[A-Za-z0-9]\<close>.\<close>

definition dash_lower_digit :: "char \<Rightarrow> bool" where
  "dash_lower_digit c \<longleftrightarrow> c = CHR ''-'' \<or> is_lower c \<or> is_digit c"

definition lower_digit :: "char \<Rightarrow> bool" where
  "lower_digit c \<longleftrightarrow> is_lower c \<or> is_digit c"

definition alnum :: "char \<Rightarrow> bool" where
  "alnum c \<longleftrightarrow> is_alpha c \<or> is_digit c"

text \<open>The patterns of the template and of \<open>BAD_OPTION_FULL\<close>, \<open>BAD_OPTION_MINIMAL\<close>.\<close>

definition pat_long_eq :: "glob list" where  \<comment> \<open>\<^verbatim>\<open>--[!=]*=*\<close>\<close>
  "pat_long_eq = [Lit CHR ''-'', Lit CHR ''-'', NoneOf (\<lambda>c. c = CHR ''=''), Star, Lit CHR ''='', Star]"

definition pat_long_bad_char :: "glob list" where  \<comment> \<open>\<^verbatim>\<open>--*[!-a-z0-9]*\<close>\<close>
  "pat_long_bad_char = [Lit CHR ''-'', Lit CHR ''-'', Star, NoneOf dash_lower_digit, Star]"

definition pat_long_double_dash :: "glob list" where  \<comment> \<open>\<^verbatim>\<open>--*--*\<close>\<close>
  "pat_long_double_dash = [Lit CHR ''-'', Lit CHR ''-'', Star, Lit CHR ''-'', Lit CHR ''-'', Star]"

definition pat_long_shape :: "glob list" where  \<comment> \<open>\<^verbatim>\<open>--[a-z0-9]*[a-z0-9]\<close>\<close>
  "pat_long_shape = [Lit CHR ''-'', Lit CHR ''-'', OneOf lower_digit, Star, OneOf lower_digit]"

definition pat_dash_bad_char :: "glob list" where  \<comment> \<open>\<^verbatim>\<open>-*[!A-Za-z0-9]*\<close>\<close>
  "pat_dash_bad_char = [Lit CHR ''-'', Star, NoneOf alnum, Star]"

definition pat_short_shape :: "glob list" where  \<comment> \<open>\<^verbatim>\<open>-[A-Za-z0-9]\<close>\<close>
  "pat_short_shape = [Lit CHR ''-'', OneOf alnum]"

definition pat_short_bundle :: "glob list" where  \<comment> \<open>\<^verbatim>\<open>-?*\<close>\<close>
  "pat_short_bundle = [Lit CHR ''-'', AnyChar, Star]"

subsection \<open>Arms, state and outcome\<close>

text \<open>
  One arm per line of \<^verbatim>\<open>cases\<close>: the spellings before the parenthesis, whether the arm
  runs the argument check, whether it runs \<^verbatim>\<open>assert_noarg\<close> (the full rendering, for an
  option with a long form), the name in \<^verbatim>\<open>opt_%s\<close> and the default of the option. The
  three branches are those of \<open>option_line\<close>. A spelling is compared as a literal
  string and the default is taken as it stands, which is what the shell does with
  spellings made of letters, digits and dashes and with a default it has nothing to
  expand in; \<open>run_parser\<close> below uses the arms of such options only.
\<close>

record arm =
  spellings :: "string list"
  takes_arg :: bool
  long_form :: bool
  var_name :: string
  default_text :: string

definition arm_of :: "doc_option \<Rightarrow> arm option" where
  "arm_of opt =
     (case opt_name opt of
        Inl e \<Rightarrow> None
      | Inr name \<Rightarrow>
          if argcount opt = 0 \<and> name = ''help'' then None
          else Some \<lparr> spellings = (if truthy (short opt) then [the (short opt)] else [])
                                    @ (if truthy (long opt) then [the (long opt)] else []),
                      takes_arg = (argcount opt \<noteq> 0),
                      long_form = truthy (long opt),
                      var_name = name,
                      default_text = (if argcount opt \<noteq> 0 then or_else (default_value opt) '''' else '''') \<rparr>)"

definition arms_of :: "doc_option list \<Rightarrow> arm list" where
  "arms_of options = List.map_filter arm_of options"

text \<open>
  The state of the loop: the positional parameters, the variables \<^verbatim>\<open>opt_*\<close>, and the
  scratch variables \<^verbatim>\<open>long\<close>, \<^verbatim>\<open>short\<close>, \<^verbatim>\<open>val\<close>, which only the full rendering sets
  (it starts them empty).
\<close>

record sh_state =
  params :: "string list"
  opt_vars :: "string \<rightharpoonup> string"
  long_var :: string
  short_var :: string
  val_var :: string

text \<open>
  How a run ends: \<^verbatim>\<open>exit_usage\<close> or \<^verbatim>\<open>exit2\<close> with the kind of the failure and the line
  written to the error stream after the command name, the help text, a shell error (a
  \<^verbatim>\<open>shift\<close> with no parameter left), or the end of the script with the variables
  \<^verbatim>\<open>opt_*\<close> of the arms (the value, or \<open>None\<close> for a variable that is unset) and the
  positional parameters. \<open>NotModelled\<close> stands for a run the model does not describe: no
  script was generated, or the script holds text that the shell expands.
\<close>

datatype failure = MissingArgument | NoArgumentAccepted | InvalidOption
  | UnknownLongOption | UnknownShortOption

datatype outcome =
    UsageExit failure string
  | HelpExit
  | ShellError
  | NotModelled
  | Completed "(string \<times> string option) list" "string list"

text \<open>
  The message: \<^verbatim>\<open>exit_usage "..."\<close> in the full rendering, \<^verbatim>\<open>exit2 "..." "$opt"\<close> with the
  format \<^verbatim>\<open>%s: '%s'\<close> in the minimal one.
\<close>

definition usage_message :: "bool \<Rightarrow> failure \<Rightarrow> string \<Rightarrow> string" where
  \<open>usage_message mini f opt =
     (if mini then
        (case f of
           MissingArgument \<Rightarrow> ''missing argument: '' @ sq @ opt @ sq
         | _ \<Rightarrow> ''invalid option: '' @ sq @ opt @ sq)
      else
        (case f of
           MissingArgument \<Rightarrow> ''missing argument for option '' @ sq @ opt @ sq
         | NoArgumentAccepted \<Rightarrow> ''option '' @ sq @ opt @ sq @ '' doesn\'t accept arguments''
         | InvalidOption \<Rightarrow> ''invalid option: '' @ sq @ opt @ sq
         | UnknownLongOption \<Rightarrow> ''unknown long option: '' @ sq @ opt @ sq
         | UnknownShortOption \<Rightarrow> ''unknown short option: '' @ sq @ opt @ sq))\<close>

text \<open>
  \<^verbatim>\<open>assert_arg "$1" "$val" "$opt" "$short"\<close> and \<^verbatim>\<open>check "$1" "$opt"\<close>: whether the
  argument is missing. \<^verbatim>\<open>${3%?}\<close> is \<^verbatim>\<open>$3\<close> without its last character.
\<close>

definition arg_missing :: "bool \<Rightarrow> string \<Rightarrow> string \<Rightarrow> sh_state \<Rightarrow> bool" where
  "arg_missing mini eol opt st =
     (case params st of
        [] \<Rightarrow> True
      | a # rest \<Rightarrow>
          if mini then \<not> (a \<noteq> eol \<and> a \<noteq> ''--'')
          else a = eol
            \<or> (a = ''--'' \<and> val_var st \<noteq> ''--'')
            \<or> (butlast opt = ''-'' \<and> opt = short_var st))"

text \<open>The body of one arm of \<^verbatim>\<open>cases\<close>, \<^verbatim>\<open>opt\<close> already shifted away.\<close>

definition run_arm :: "bool \<Rightarrow> string \<Rightarrow> string \<Rightarrow> arm \<Rightarrow> sh_state \<Rightarrow> outcome + sh_state" where
  "run_arm mini eol opt a st =
     (if takes_arg a then
        (if arg_missing mini eol opt st then Inl (UsageExit MissingArgument (usage_message mini MissingArgument opt))
         else Inr (st\<lparr> opt_vars := (opt_vars st)(var_name a \<mapsto> hd (params st)),
                       params := tl (params st) \<rparr>))
      else if \<not> mini \<and> long_form a \<and> opt = long_var st then
        Inl (UsageExit NoArgumentAccepted (usage_message mini NoArgumentAccepted (long_var st)))
      else Inr (st\<lparr> opt_vars := (opt_vars st)(var_name a \<mapsto> ''true'') \<rparr>))"

text \<open>
  \<^verbatim>\<open>--) while [ "$1" != "$EOL" ]; do set -- "$@" "$1"; shift; done\<close>: the parameters
  before the end marker go behind the rest.
\<close>

definition rotate_rest :: "string \<Rightarrow> string list \<Rightarrow> string list" where
  "rotate_rest eol ps = dropWhile (\<lambda>p. p \<noteq> eol) ps @ takeWhile (\<lambda>p. p \<noteq> eol) ps"

text \<open>The arms of \<open>BAD_OPTION_FULL\<close> and \<open>BAD_OPTION_MINIMAL\<close>, in their order.\<close>

definition bad_option :: "bool \<Rightarrow> string \<Rightarrow> failure option" where
  "bad_option mini opt =
     (if mini then
        (if glob_match pat_short_shape opt \<or> glob_match pat_dash_bad_char opt
         then Some InvalidOption else None)
      else if glob_match pat_long_bad_char opt \<or> glob_match pat_long_double_dash opt
        then Some InvalidOption
      else if glob_match pat_long_shape opt then Some UnknownLongOption
      else if glob_match pat_dash_bad_char opt then Some InvalidOption
      else if glob_match pat_short_shape opt then Some UnknownShortOption
      else None)"

text \<open>
  One round of \<^verbatim>\<open>while [ "$1" != "$EOL" ]\<close>, entered with a first parameter that is not
  the end marker: \<^verbatim>\<open>opt="$1"; shift\<close> and the first arm that matches.
  \<^verbatim>\<open>${opt%%=*}\<close> is the text before the first \<^verbatim>\<open>=\<close>, \<^verbatim>\<open>${opt#*=}\<close> the text after it;
  \<^verbatim>\<open>${opt#-?}\<close> drops two characters and \<^verbatim>\<open>${opt%$other}\<close> keeps them.
\<close>

definition step :: "bool \<Rightarrow> string \<Rightarrow> arm list \<Rightarrow> sh_state \<Rightarrow> outcome + sh_state" where
  "step mini eol arms st =
     (case params st of
        [] \<Rightarrow> Inl ShellError
      | opt # rest \<Rightarrow>
          let st = st\<lparr>params := rest\<rparr> in
          (case find (\<lambda>a. opt \<in> set (spellings a)) arms of
             Some a \<Rightarrow> run_arm mini eol opt a st
           | None \<Rightarrow>
              if opt = ''-h'' \<or> opt = ''--help'' then
                (if \<not> mini \<and> opt = long_var st
                 then Inl (UsageExit NoArgumentAccepted (usage_message mini NoArgumentAccepted (long_var st)))
                 else Inl HelpExit)
              else if opt = ''--'' then Inr (st\<lparr>params := rotate_rest eol rest\<rparr>)
              else if glob_match pat_long_eq opt then
                (let l = takeWhile (\<lambda>c. c \<noteq> CHR ''='') opt;
                     v = tl (dropWhile (\<lambda>c. c \<noteq> CHR ''='') opt)
                 in Inr (if mini then st\<lparr>params := l # v # rest\<rparr>
                         else st\<lparr>params := l # v # rest, long_var := l, val_var := v\<rparr>))
              else (case bad_option mini opt of
                  Some f \<Rightarrow> Inl (UsageExit f (usage_message mini f opt))
                | None \<Rightarrow>
                    if glob_match pat_short_bundle opt then
                      (let other = drop 2 opt; s = take 2 opt
                       in Inr (if mini then st\<lparr>params := s # (''-'' @ other) # rest\<rparr>
                               else st\<lparr>params := s # (''-'' @ other) # rest, short_var := s\<rparr>))
                    else Inr (st\<lparr>params := rest @ [opt]\<rparr>))))"

text \<open>
  The variables \<^verbatim>\<open>opt_*\<close> at the end of the script, in the order of the arms. The full
  rendering ends with \<^verbatim>\<open>: "${opt_a=default}" "${opt_b=default}" ...\<close>, one word per arm:
  the shell expands the words from left to right, and a word assigns only when the
  variable is unset, so a variable that the command line did not set gets the default of
  the first arm with its name. The minimal rendering leaves it unset.
\<close>

definition default_of :: "arm list \<Rightarrow> string \<Rightarrow> string option" where
  "default_of arms name = map_option default_text (find (\<lambda>a. var_name a = name) arms)"

definition final_value :: "bool \<Rightarrow> arm list \<Rightarrow> (string \<rightharpoonup> string) \<Rightarrow> string \<Rightarrow> string option" where
  "final_value mini arms vars name =
     (case vars name of
        Some v \<Rightarrow> Some v
      | None \<Rightarrow> if mini then None else default_of arms name)"

definition bindings :: "bool \<Rightarrow> arm list \<Rightarrow> (string \<rightharpoonup> string) \<Rightarrow> (string \<times> string option) list" where
  "bindings mini arms vars = map (\<lambda>a. (var_name a, final_value mini arms vars (var_name a))) arms"

text \<open>After the loop: \<^verbatim>\<open>shift\<close> drops the end marker.\<close>

definition finish :: "bool \<Rightarrow> arm list \<Rightarrow> sh_state \<Rightarrow> outcome" where
  "finish mini arms st = Completed (bindings mini arms (opt_vars st)) (tl (params st))"

text \<open>
  The loop with a bound on the number of rounds; \<open>None\<close> when the bound is reached
  before the script ends.
\<close>

fun run_loop :: "nat \<Rightarrow> bool \<Rightarrow> string \<Rightarrow> arm list \<Rightarrow> sh_state \<Rightarrow> outcome option" where
  "run_loop 0 mini eol arms st = None"
| "run_loop (Suc n) mini eol arms st =
     (case params st of
        [] \<Rightarrow> Some ShellError
      | p # ps \<Rightarrow>
          if p = eol then Some (finish mini arms st)
          else (case step mini eol arms st of
              Inl r \<Rightarrow> Some r
            | Inr st' \<Rightarrow> run_loop n mini eol arms st'))"

subsection \<open>The script as a whole\<close>

text \<open>
  The text of the docstring, the command name and the defaults are pasted into the
  script as they are, between double quotes or bare, and the spellings become patterns of
  \<^verbatim>\<open>case\<close>. The model describes the scripts in which the shell reads all of it
  literally:
  \<^item> the docstring holds no double quote, dollar sign, backquote or backslash (they end
    or expand the strings \<^verbatim>\<open>USAGE\<close> and \<^verbatim>\<open>HELP_MSG\<close>), no \<^verbatim>\<open>#\<close> (with \<^verbatim>\<open>strip_comments\<close>
    the two substitutions would cut into the strings) and no null character;
  \<^item> the command name written after \<^verbatim>\<open>CMD=\<close>, when there is one, is made of letters,
    digits and \<^verbatim>\<open>_ - . /\<close>;
  \<^item> every option has a spelling, its spellings are made of letters, digits and dashes,
    and its default of letters, digits, blanks and \<^verbatim>\<open>_ - . / : ,\<close>;
  \<^item> the end marker is not drawn at random;
  \<^item> the arguments hold no null character.
\<close>

definition quoted_plain :: "string \<Rightarrow> bool" where
  "quoted_plain s = list_all (\<lambda>c. c \<notin> set [CHR 0x22, CHR ''$'', CHR 0x60, CHR 0x5C, CHR ''#'', CHR 0x00]) s"

definition word_char :: "char \<Rightarrow> bool" where
  "word_char c \<longleftrightarrow> alnum c \<or> c \<in> set ''_-./''"

definition spelling_char :: "char \<Rightarrow> bool" where
  "spelling_char c \<longleftrightarrow> alnum c \<or> c = CHR ''-''"

definition value_char :: "char \<Rightarrow> bool" where
  "value_char c \<longleftrightarrow> alnum c \<or> c \<in> set '' _-./:,''"

definition plain_option :: "doc_option \<Rightarrow> bool" where
  "plain_option opt \<longleftrightarrow>
     (truthy (short opt) \<or> truthy (long opt))
     \<and> list_all spelling_char (or_else (short opt) [])
     \<and> list_all spelling_char (or_else (long opt) [])
     \<and> list_all value_char (or_else (default_value opt) [])"

definition modelled :: "gen_args \<Rightarrow> string \<Rightarrow> string option \<Rightarrow> doc_option list \<Rightarrow> string list \<Rightarrow> bool" where
  "modelled A docstring parsed_cmd options argv \<longleftrightarrow>
     quoted_plain docstring
     \<and> list_all word_char (or_else (if truthy (command A) then command A else parsed_cmd) [])
     \<and> list_all plain_option options
     \<and> random_eol A = False
     \<and> list_all (\<lambda>a. CHR 0x00 \<notin> set a) argv"

text \<open>
  The variables the script inherits from its environment are a map from names to values.
  The end marker is \<^verbatim>\<open>${EOL:=$(printf '\1\3\3\7')}\<close>: the inherited value of \<^verbatim>\<open>EOL\<close> when it
  is set and not empty, else the fixed marker.
\<close>

definition EOL :: string where
  "EOL = [CHR 0x01, CHR 0x03, CHR 0x03, CHR 0x07]"

definition eol_of :: "(string \<rightharpoonup> string) \<Rightarrow> string" where
  "eol_of env = or_else (env ''EOL'') EOL"

text \<open>
  The script generated from \<open>docstring\<close> with the arguments \<open>A\<close>, run by a POSIX shell
  (\<^verbatim>\<open>sh -e parser args\<close> in the tests) with the inherited variables \<open>env\<close> on the arguments
  \<open>argv\<close>: \<^verbatim>\<open>set -- "$@" "$EOL"\<close>, the scratch variables empty, the variables \<^verbatim>\<open>opt_*\<close> as
  inherited.
\<close>

definition run_parser ::
  "nat \<Rightarrow> docopt \<Rightarrow> string \<Rightarrow> gen_args \<Rightarrow> (string \<rightharpoonup> string) \<Rightarrow> string list \<Rightarrow> outcome option" where
  "run_parser n D docstring A env argv =
     (case parse_docstring D docstring of
        Inl e \<Rightarrow> Some NotModelled
      | Inr (parsed_cmd, usage_msg, help_msg, options) \<Rightarrow>
          (case emit_parser A (parsed_cmd, usage_msg, help_msg, options) of
             Inl e \<Rightarrow> Some NotModelled
           | Inr text \<Rightarrow>
               if modelled A docstring parsed_cmd options argv then
                 run_loop n (minimal A) (eol_of env) (arms_of options)
                   \<lparr> params = argv @ [eol_of env],
                     opt_vars = (\<lambda>name. env (''opt_'' @ name)),
                     long_var = '''', short_var = '''', val_var = '''' \<rparr>
               else Some NotModelled))"

text \<open>
  The exit status. \<^verbatim>\<open>exit_usage\<close> and \<^verbatim>\<open>exit2\<close> end with \<^verbatim>\<open>exit 2\<close>, the help arm with
  \<^verbatim>\<open>exit 0\<close>. A script that reaches its end returns the status of its last command,
  which is the debug block: with \<^verbatim>\<open>debug_print=None\<close> it is
  \<^verbatim>\<open>[ "${SOPIX_DEBUG-}" ] && for ... done && printf ...\<close>, whose status is 1 when
  \<^verbatim>\<open>SOPIX_DEBUG\<close> is unset or empty; with \<^verbatim>\<open>debug_print=True\<close> the loop and the \<^verbatim>\<open>printf\<close>
  run, with \<^verbatim>\<open>debug_print=False\<close> the last command is \<^verbatim>\<open>unset -f\<close>, and the status is 0.
\<close>

definition exit_code :: "gen_args \<Rightarrow> (string \<rightharpoonup> string) \<Rightarrow> outcome \<Rightarrow> nat option" where
  "exit_code A env r =
     (case r of
        UsageExit f m \<Rightarrow> Some 2
      | HelpExit \<Rightarrow> Some 0
      | ShellError \<Rightarrow> None
      | NotModelled \<Rightarrow> None
      | Completed vs ps \<Rightarrow>
          Some (if debug_print A = None \<and> or_else (env ''SOPIX_DEBUG'') [] = [] then 1 else 0))"


section \<open>The example of the repository\<close>

text \<open>
  \<open>DOC_EXAMPLE\<close> is the docstring of the tests. It has no usage section and no options
  header; \<^verbatim>\<open>docopt\<close> reads five options from it once the header is added, and the
  placeholder usage pattern holds no option of its own.
\<close>

definition example_defaults :: "doc_option list" where
  "example_defaults = [
     \<lparr>short = Some ''-h'', long = Some ''--help'', argcount = 0, default_value = None\<rparr>,
     \<lparr>short = Some ''-f'', long = Some ''--flag'', argcount = 0, default_value = None\<rparr>,
     \<lparr>short = Some ''-n'', long = Some ''--name'', argcount = 1, default_value = Some ''Alice''\<rparr>,
     \<lparr>short = None, long = Some ''--only-long'', argcount = 0, default_value = None\<rparr>,
     \<lparr>short = Some ''-v'', long = None, argcount = 0, default_value = None\<rparr>]"

text \<open>The options in the order of \<^verbatim>\<open>sorted\<close>: by long form, then short form.\<close>

definition example_options :: "doc_option list" where
  "example_options = [
     \<lparr>short = Some ''-v'', long = None, argcount = 0, default_value = None\<rparr>,
     \<lparr>short = Some ''-f'', long = Some ''--flag'', argcount = 0, default_value = None\<rparr>,
     \<lparr>short = Some ''-h'', long = Some ''--help'', argcount = 0, default_value = None\<rparr>,
     \<lparr>short = Some ''-n'', long = Some ''--name'', argcount = 1, default_value = Some ''Alice''\<rparr>,
     \<lparr>short = None, long = Some ''--only-long'', argcount = 0, default_value = None\<rparr>]"

text \<open>An option \<^verbatim>\<open>--help=TOPIC\<close>: the reserved name, with an argument.\<close>

definition help_with_arg :: doc_option where
  "help_with_arg = \<lparr>short = None, long = Some ''--help'', argcount = 1, default_value = None\<rparr>"


text \<open>
  What \<^verbatim>\<open>docopt\<close> returns on one docstring: its usage sections, whether it has an
  options header, the formal usage of its pattern, the options of its option lines, the
  options of its usage pattern when the pattern parses, and the slots of a set.
\<close>

definition docopt_with ::
  "string list \<Rightarrow> string \<Rightarrow> doc_option list \<Rightarrow> doc_option list option \<Rightarrow> (doc_option \<Rightarrow> nat) \<Rightarrow> docopt" where
  "docopt_with usage_sections formal defaults pattern slot =
     \<lparr> parse_section = (\<lambda>name doc. if name = ''usage:'' then usage_sections else []),
       formal_usage = (\<lambda>section. formal),
       parse_defaults = (\<lambda>doc. Inr defaults),
       parse_pattern = (\<lambda>f ds. case pattern of None \<Rightarrow> None | Some os \<Rightarrow> Some (os, ds)),
       hash_slot = slot \<rparr>"

text \<open>\<open>DOC_EXAMPLE\<close>: no usage section, five option lines.\<close>

definition docopt_example :: docopt where
  "docopt_example = docopt_with [] ''( [options] [ARGS...] )'' example_defaults (Some []) (\<lambda>opt. 0)"

text \<open>
  A docstring with the two option lines \<^verbatim>\<open>-n\<close> and \<^verbatim>\<open>--n\<close>: two options, one
  identifier.
\<close>

definition same_name_doc :: string where
  "same_name_doc = ''  -n  first'' @ nl @ ''  --n  second'' @ nl"

definition same_name_defaults :: "doc_option list" where
  "same_name_defaults = [
     \<lparr>short = Some ''-n'', long = None, argcount = 0, default_value = None\<rparr>,
     \<lparr>short = None, long = Some ''--n'', argcount = 0, default_value = None\<rparr>]"

definition docopt_same_name :: docopt where
  "docopt_same_name = docopt_with [] ''( [options] [ARGS...] )'' same_name_defaults (Some []) (\<lambda>opt. 0)"

text \<open>
  A docstring with the two option lines \<^verbatim>\<open>-n\<close> and \<^verbatim>\<open>-n ARG\<close>: two options with one
  sort key. The slots of the two in the hash table of the set depend on the process.
\<close>

definition same_key_doc :: string where
  "same_key_doc = ''  -n  first'' @ nl @ ''  -n ARG  second'' @ nl"

definition same_key_defaults :: "doc_option list" where
  "same_key_defaults = [
     \<lparr>short = Some ''-n'', long = None, argcount = 0, default_value = None\<rparr>,
     \<lparr>short = Some ''-n'', long = None, argcount = 1, default_value = None\<rparr>]"

definition docopt_same_key :: "(doc_option \<Rightarrow> nat) \<Rightarrow> docopt" where
  "docopt_same_key slot = docopt_with [] ''( [options] [ARGS...] )'' same_key_defaults (Some []) slot"

text \<open>
  The docstring \<^verbatim>\<open>Usage:x [\<close>: one usage section, no blank after the colon, and a
  pattern with an unmatched bracket, which \<^verbatim>\<open>docopt.parse_pattern\<close> rejects.
\<close>

definition unmatched_doc :: string where
  "unmatched_doc = ''Usage:x [''"

definition docopt_unmatched :: docopt where
  "docopt_unmatched = docopt_with [''Usage:x [''] ''( [ )'' [] None (\<lambda>opt. 0)"

text \<open>A docstring with two usage sections.\<close>

definition two_usages_doc :: string where
  "two_usages_doc = ''Usage: a'' @ nl @ nl @ ''Usage: b'' @ nl"

definition docopt_two_usages :: docopt where
  "docopt_two_usages = docopt_with [''Usage: a'', ''Usage: b''] ''( )'' [] (Some []) (\<lambda>opt. 0)"

text \<open>
  A docstring with a usage section and an options section. The usage pattern names the
  two options of the table, so \<^verbatim>\<open>pattern.flat(docopt.Option)\<close> and the table hold the
  same two options.
\<close>

definition usage_doc :: string where
  "usage_doc = ''Usage: prog [-v] [--name=N]'' @ nl @ nl @ ''Options:'' @ nl
     @ ''  -v  verbose'' @ nl @ ''  --name=N  the name'' @ nl"

definition usage_doc_table :: "doc_option list" where
  "usage_doc_table = [
     \<lparr>short = Some ''-v'', long = None, argcount = 0, default_value = None\<rparr>,
     \<lparr>short = None, long = Some ''--name'', argcount = 1, default_value = None\<rparr>]"

definition docopt_usage :: docopt where
  "docopt_usage =
     \<lparr> parse_section = (\<lambda>name doc.
         if name = ''usage:'' then [''Usage: prog [-v] [--name=N]'']
         else if name = ''options:''
           then [''Options:'' @ nl @ ''  -v  verbose'' @ nl @ ''  --name=N  the name'']
         else []),
       formal_usage = (\<lambda>section. ''( [-v] [--name=N] )''),
       parse_defaults = (\<lambda>doc. Inr usage_doc_table),
       parse_pattern = (\<lambda>f ds. Some (usage_doc_table, ds)),
       hash_slot = (\<lambda>opt. 0) \<rparr>"


section \<open>Properties of the option loop\<close>

lemmas char_defs = is_idstart_def is_idchar_def is_alpha_def is_digit_def startswith_def

lemmas option_line_defs = option_line_def opt_name_def truthy_def or_else_def ljust_def
  replace_char_def lstrip_char_def percent_spec_def SNIPPET_assert_arg_def
  SNIPPET_assert_noarg_def Let_def

lemma option_line_help:
  "argcount opt = 0 \<Longrightarrow> opt_name opt = Inr ''help'' \<Longrightarrow> option_line mini ml opt = Inr None"
  by (simp add: option_line_def Let_def)

text \<open>
  Claim C4, as the code has it: an option named \<^verbatim>\<open>help\<close> that takes no argument leaves
  no trace in the loop. The lines of \<^verbatim>\<open>cases\<close> and the pairs of \<^verbatim>\<open>name_default\<close> (from
  which the defaults and the debug list are made) are those of the option list without
  such options, for either rendering and any column width.
\<close>

theorem help_flag_excluded:
  "option_lines mini ml
     (filter (\<lambda>opt. \<not> (argcount opt = 0 \<and> opt_name opt = Inr ''help'')) options)
   = option_lines mini ml options"
proof (induction options)
  case Nil
  show ?case by simp
next
  case (Cons opt options)
  show ?case
  proof (cases "argcount opt = 0 \<and> opt_name opt = Inr ''help''")
    case True
    then have "option_line mini ml opt = Inr None" by (simp add: option_line_help)
    with True Cons.IH show ?thesis by (simp split: sum.splits)
  next
    case False
    with Cons.IH show ?thesis by (auto split: sum.splits)
  qed
qed

text \<open>
  Claim C4 as stated fails for an option named \<^verbatim>\<open>help\<close> that takes an argument: the test
  of \<^verbatim>\<open>argcount\<close> comes first, so \<^verbatim>\<open>--help=TOPIC\<close> gets an arm and the variable
  \<^verbatim>\<open>opt_help\<close> like any other option.
\<close>

theorem help_with_argument_emitted:
  \<open>option_lines False 6 [help_with_arg]
     = Inr [(''     --help ) assert_arg "$1" "$val" "$opt" "$short"; opt_help="$1"; shift;;'',
             ''help'', '''')]\<close>
  by (simp add: help_with_arg_def option_line_defs char_defs)


section \<open>Properties of the option model\<close>

lemmas strip_defs = py_strip_def py_lstrip_def py_rstrip_def py_isspace_def

lemmas parse_defs = parse_docstring_def docopt_with_def Let_def usage_and_cmd_def
  usage_and_help_def docopt_doc_of_def sorted_options_def set_iter_def sort_key_of_def
  or_else_def synthesized_usage_def usage_item_def truthy_def startswith_def
  placeholder_usage_def

lemma sorted_options_sorted: "sorted (map sort_key_of (sorted_options slot os ds))"
  by (simp add: sorted_options_def)

lemma sorted_options_distinct: "distinct (sorted_options slot os ds)"
  by (simp add: sorted_options_def set_iter_def)

lemma sorted_options_set: "set (sorted_options slot os ds) = set os \<union> set ds"
  by (simp add: sorted_options_def set_iter_def)

lemma parse_docstring_options:
  assumes "parse_docstring D doc = Inr (cmd, usage, hlp, options)"
  shows "\<exists>usage_msg table os ds.
           usage_and_cmd (parse_section D ''usage:'' doc) = Inr (usage_msg, cmd)
           \<and> parse_defaults D (docopt_doc_of D (parse_section D ''usage:'' doc) doc) = Inr table
           \<and> parse_pattern D (formal_usage D (or_else usage_msg placeholder_usage)) table
               = Some (os, ds)
           \<and> options = sorted_options (hash_slot D) os ds"
  using assms unfolding parse_docstring_def Let_def
  by (auto split: if_splits sum.splits option.splits prod.splits)

lemma parse_example:
  "parse_docstring docopt_example DOC_EXAMPLE
     = Inr (None, ''Usage:  $CMD [-fhv] [-n ARG] [--only-long] [ARGS...]'',
            ''$USAGE'' @ nl @ nl @ py_strip DOC_EXAMPLE, example_options)"
  by (simp add: parse_defs docopt_example_def example_defaults_def example_options_def)

lemma parse_same_name:
  "parse_docstring docopt_same_name same_name_doc
     = Inr (None, ''Usage:  $CMD [-n] [--n] [ARGS...]'',
            ''$USAGE'' @ nl @ nl @ py_strip same_name_doc, same_name_defaults)"
  by (simp add: parse_defs docopt_same_name_def same_name_defaults_def)

lemma parse_usage_doc:
  "parse_docstring docopt_usage usage_doc
     = Inr (Some ''prog'', ''Usage: prog [-v] [--name=N]'',
            ''$USAGE'' @ nl @ nl @ ''Options:'' @ nl @ ''  -v  verbose'' @ nl
              @ ''  --name=N  the name'',
            usage_doc_table)"
  by (simp add: parse_defs docopt_usage_def usage_doc_def usage_doc_table_def
        usage_prefix_def ascii_lower_def strip_defs py_replace.simps)

text \<open>
  Claim C8, as the code has it: the options handed to the emission are the options that
  \<^verbatim>\<open>docopt\<close> reads from the usage pattern of this docstring and from its table of option
  lines, each once, in ascending order of the key (long form or empty, short form or
  empty). Nothing makes the identifiers distinct.
\<close>

theorem option_model_sorted_distinct:
  assumes "parse_docstring D doc = Inr (cmd, usage, hlp, options)"
  shows "distinct options \<and> sorted (map sort_key_of options)
         \<and> (\<exists>usage_msg table os ds.
              usage_and_cmd (parse_section D ''usage:'' doc) = Inr (usage_msg, cmd)
              \<and> parse_defaults D (docopt_doc_of D (parse_section D ''usage:'' doc) doc) = Inr table
              \<and> parse_pattern D (formal_usage D (or_else usage_msg placeholder_usage)) table
                  = Some (os, ds)
              \<and> set options = set os \<union> set ds)"
proof -
  from parse_docstring_options [OF assms] obtain usage_msg table os ds
    where u: "usage_and_cmd (parse_section D ''usage:'' doc) = Inr (usage_msg, cmd)"
      and t: "parse_defaults D (docopt_doc_of D (parse_section D ''usage:'' doc) doc) = Inr table"
      and p: "parse_pattern D (formal_usage D (or_else usage_msg placeholder_usage)) table
                = Some (os, ds)"
      and o: "options = sorted_options (hash_slot D) os ds"
    by blast
  from o have "distinct options" "sorted (map sort_key_of options)"
      "set options = set os \<union> set ds"
    by (simp_all add: sorted_options_distinct sorted_options_sorted sorted_options_set)
  with u t p show ?thesis by blast
qed

text \<open>
  At the docstring \<open>usage_doc\<close> the usage pattern and the table hold the same two
  options, and the list handed on holds each of them once.
\<close>

theorem option_model_sorted_distinct_witness:
  "parse_docstring docopt_usage usage_doc
     = Inr (Some ''prog'', ''Usage: prog [-v] [--name=N]'',
            ''$USAGE'' @ nl @ nl @ ''Options:'' @ nl @ ''  -v  verbose'' @ nl
              @ ''  --name=N  the name'',
            usage_doc_table)
   \<and> parse_pattern docopt_usage (formal_usage docopt_usage ''Usage: prog [-v] [--name=N]'')
        usage_doc_table = Some (usage_doc_table, usage_doc_table)
   \<and> length usage_doc_table = 2
   \<and> distinct usage_doc_table \<and> sorted (map sort_key_of usage_doc_table)
   \<and> (\<exists>usage_msg table os ds.
        usage_and_cmd (parse_section docopt_usage ''usage:'' usage_doc)
          = Inr (usage_msg, Some ''prog'')
        \<and> parse_defaults docopt_usage
             (docopt_doc_of docopt_usage (parse_section docopt_usage ''usage:'' usage_doc) usage_doc)
            = Inr table
        \<and> parse_pattern docopt_usage
             (formal_usage docopt_usage (or_else usage_msg placeholder_usage)) table
            = Some (os, ds)
        \<and> set usage_doc_table = set os \<union> set ds)"
  using option_model_sorted_distinct [OF parse_usage_doc] parse_usage_doc
  by (simp add: docopt_usage_def usage_doc_table_def)

text \<open>
  Claim C8 as stated fails on the identifiers: the option lines \<^verbatim>\<open>-n\<close> and \<^verbatim>\<open>--n\<close> are
  two options, and both have the identifier \<^verbatim>\<open>n\<close>.
\<close>

theorem identifiers_not_distinct:
  "(case parse_docstring docopt_same_name same_name_doc of
      Inl e \<Rightarrow> False
    | Inr (cmd, usage, help, options) \<Rightarrow> map opt_name options = [Inr ''n'', Inr ''n''])"
  by (simp add: parse_same_name same_name_defaults_def opt_name_def truthy_def
        replace_char_def lstrip_char_def)

subsection \<open>The order of a set\<close>

text \<open>
  When the usage pattern and the defaults table hold no two options with one sort key,
  the sorted list is the same for every placement in the hash table.
\<close>

lemma sorted_options_slot_irrelevant:
  assumes inj: "inj_on sort_key_of (set os \<union> set ds)"
  shows "sorted_options slot1 os ds = sorted_options slot2 os ds"
proof -
  let ?A = "sorted_options slot1 os ds" and ?B = "sorted_options slot2 os ds"
  have injA: "inj_on sort_key_of (set ?A)" and injB: "inj_on sort_key_of (set ?B)"
    using inj by (simp_all add: sorted_options_set)
  have "map sort_key_of ?A = map sort_key_of ?B"
  proof (rule sorted_distinct_set_unique)
    show "sorted (map sort_key_of ?A)" "sorted (map sort_key_of ?B)"
      by (rule sorted_options_sorted)+
    show "distinct (map sort_key_of ?A)"
      using injA by (simp add: distinct_map sorted_options_distinct)
    show "distinct (map sort_key_of ?B)"
      using injB by (simp add: distinct_map sorted_options_distinct)
    show "set (map sort_key_of ?A) = set (map sort_key_of ?B)"
      by (simp add: sorted_options_set)
  qed
  moreover have "inj_on sort_key_of (set ?A \<union> set ?B)"
    using inj by (simp add: sorted_options_set)
  ultimately show ?thesis by (simp add: inj_on_map_eq_map)
qed

lemma generate_parser_slot_irrelevant:
  assumes "\<And>usage_msg cmd table os ds.
      usage_and_cmd (parse_section D ''usage:'' doc) = Inr (usage_msg, cmd) \<Longrightarrow>
      parse_defaults D (docopt_doc_of D (parse_section D ''usage:'' doc) doc) = Inr table \<Longrightarrow>
      parse_pattern D (formal_usage D (or_else usage_msg placeholder_usage)) table = Some (os, ds)
      \<Longrightarrow> inj_on sort_key_of (set os \<union> set ds)"
  shows "generate_parser (D\<lparr>hash_slot := slot1\<rparr>) doc A = generate_parser (D\<lparr>hash_slot := slot2\<rparr>) doc A"
proof -
  let ?us = "parse_section D ''usage:'' doc"
  let ?dd = "docopt_doc_of D ?us doc"
  have dd: "docopt_doc_of (D\<lparr>hash_slot := s\<rparr>) us doc = docopt_doc_of D us doc" for s us
    by (simp add: docopt_doc_of_def)
  have "parse_docstring (D\<lparr>hash_slot := slot1\<rparr>) doc = parse_docstring (D\<lparr>hash_slot := slot2\<rparr>) doc"
  proof (cases "usage_and_cmd ?us")
    case (Inl e)
    then show ?thesis by (simp add: parse_docstring_def Let_def)
  next
    case (Inr uc)
    obtain um pc where uc: "uc = (um, pc)" by (cases uc)
    show ?thesis
    proof (cases "parse_defaults D ?dd")
      case (Inl e)
      with Inr uc show ?thesis by (simp add: parse_docstring_def Let_def dd)
    next
      case t: (Inr table)
      show ?thesis
      proof (cases "parse_pattern D (formal_usage D (or_else um placeholder_usage)) table")
        case None
        with Inr uc t show ?thesis by (simp add: parse_docstring_def Let_def dd)
      next
        case (Some od)
        obtain os ds where od: "od = (os, ds)" by (cases od)
        from Inr uc have u: "usage_and_cmd ?us = Inr (um, pc)" by simp
        from Some od have p: "parse_pattern D (formal_usage D (or_else um placeholder_usage)) table
            = Some (os, ds)" by simp
        have "inj_on sort_key_of (set os \<union> set ds)" using u t p by (rule assms)
        then have "sorted_options slot1 os ds = sorted_options slot2 os ds"
          by (rule sorted_options_slot_irrelevant)
        with u t p show ?thesis
          by (simp add: parse_docstring_def Let_def dd split: sum.splits prod.splits)
      qed
    qed
  qed
  then show ?thesis by (simp add: generate_parser_def)
qed

text \<open>
  Claim C6 at the docstring with the option lines \<^verbatim>\<open>-n\<close> and \<^verbatim>\<open>-n ARG\<close>: the two options
  have one sort key, the stable sort keeps them in the order of the set, and the two
  placements below give the two orders, hence two different lists of arms.
\<close>

theorem same_key_order_follows_slots:
  "parse_docstring (docopt_same_key argcount) same_key_doc
     = Inr (None, ''Usage:  $CMD [-n] [-n ARG] [ARGS...]'',
            ''$USAGE'' @ nl @ nl @ py_strip same_key_doc, same_key_defaults)
   \<and> parse_docstring (docopt_same_key (\<lambda>opt. 1 - argcount opt)) same_key_doc
     = Inr (None, ''Usage:  $CMD [-n] [-n ARG] [ARGS...]'',
            ''$USAGE'' @ nl @ nl @ py_strip same_key_doc, rev same_key_defaults)
   \<and> map fst (projr (option_lines False 0 same_key_defaults))
     \<noteq> map fst (projr (option_lines False 0 (rev same_key_defaults)))"
  by (simp add: parse_defs docopt_same_key_def same_key_defaults_def option_line_defs char_defs)

section \<open>Errors of the generation\<close>

text \<open>
  Claim C7 at the docstring \<^verbatim>\<open>Usage:x [\<close>: the grammar parser rejects its pattern, but
  the search for the command name has already failed, on \<^verbatim>\<open>None.group(1)\<close>; the error is
  not a \<^verbatim>\<open>GrammarError\<close>.
\<close>

theorem rejected_usage_raises_attribute_error:
  "parse_pattern docopt_unmatched (formal_usage docopt_unmatched unmatched_doc) [] = None
   \<and> generate_parser docopt_unmatched unmatched_doc A = Inl AttributeError"
  by (simp add: generate_parser_def parse_docstring_def usage_and_cmd_def docopt_unmatched_def
        docopt_with_def unmatched_doc_def usage_prefix_def ascii_lower_def py_isspace_def Let_def)


section \<open>Properties of the generated parser\<close>

lemmas glob_defs = pat_long_eq_def pat_long_bad_char_def pat_long_double_dash_def
  pat_long_shape_def pat_dash_bad_char_def pat_short_shape_def pat_short_bundle_def
  dash_lower_digit_def lower_digit_def alnum_def is_lower_def is_alpha_def is_digit_def

lemmas shell_defs = step_def run_arm_def arg_missing_def bad_option_def
  finish_def bindings_def final_value_def default_of_def rotate_rest_def usage_message_def
  EOL_def eol_of_def or_else_def Let_def

lemma example_arms:
  "arms_of example_options =
    [\<lparr>spellings = [''-v''], takes_arg = False, long_form = False, var_name = ''v'',
        default_text = ''''\<rparr>,
     \<lparr>spellings = [''-f'', ''--flag''], takes_arg = False, long_form = True,
        var_name = ''flag'', default_text = ''''\<rparr>,
     \<lparr>spellings = [''-n'', ''--name''], takes_arg = True, long_form = True,
        var_name = ''name'', default_text = ''Alice''\<rparr>,
     \<lparr>spellings = [''--only-long''], takes_arg = False, long_form = True,
        var_name = ''only_long'', default_text = ''''\<rparr>]"
  by (simp add: arms_of_def arm_of_def example_options_def map_filter_def opt_name_def
        truthy_def or_else_def replace_char_def lstrip_char_def)

subsection \<open>The script of the example\<close>

lemma default_shebang: "shebang_snippet ''/bin/sh -eu'' = Inr ''#!/bin/sh -eu''"
  by (simp add: shebang_snippet_def py_split_def strip_defs startswith_def)

lemma example_lines:
  "\<exists>arms. option_lines mini (max_len_of example_options) example_options = Inr arms"
  by (cases mini) (simp_all add: example_options_def max_len_of_def option_line_defs char_defs)

lemma debug_print_format: "\<exists>t. py_format DEBUG_PRINT [x] = Inr t"
  by (simp add: DEBUG_PRINT_def)

lemma emit_example:
  assumes "shebang_snippet (shebang A) = Inr sb"
  shows "\<exists>text. emit_parser A (pc, u, h, example_options) = Inr text"
proof -
  obtain arms where a: "option_lines (minimal A) (max_len_of example_options) example_options
      = Inr arms"
    using example_lines by blast
  obtain t where t: "py_format DEBUG_PRINT [join '' '' (map (\<lambda>(l, n, d). n) arms)] = Inr t"
    using debug_print_format by blast
  show ?thesis by (simp add: emit_parser_def assms a t)
qed

lemma example_plain: "quoted_plain DOC_EXAMPLE" "list_all plain_option example_options"
  by (simp_all add: quoted_plain_def DOC_EXAMPLE_def plain_option_def example_options_def
        spelling_char_def value_char_def alnum_def is_alpha_def is_digit_def truthy_def
        or_else_def)

text \<open>
  The run of the script of the example is the loop over its four arms, from the state
  that the first lines of the script set.
\<close>

lemma run_example:
  assumes "shebang A = ''/bin/sh -eu''" "random_eol A = False" "command A = None"
    and "list_all (\<lambda>a. CHR 0x00 \<notin> set a) argv"
  shows "run_parser n docopt_example DOC_EXAMPLE A env argv
     = run_loop n (minimal A) (eol_of env) (arms_of example_options)
         \<lparr> params = argv @ [eol_of env], opt_vars = (\<lambda>name. env (''opt_'' @ name)),
           long_var = '''', short_var = '''', val_var = '''' \<rparr>"
proof -
  have "shebang_snippet (shebang A) = Inr ''#!/bin/sh -eu''"
    using assms(1) default_shebang by simp
  from emit_example [OF this]
  obtain script where "emit_parser A (None, ''Usage:  $CMD [-fhv] [-n ARG] [--only-long] [ARGS...]'',
      ''$USAGE'' @ nl @ nl @ py_strip DOC_EXAMPLE, example_options) = Inr script"
    by blast
  then show ?thesis
    using assms
    by (simp add: run_parser_def parse_example modelled_def example_plain truthy_def or_else_def)
qed

lemmas example_defs = run_example default_args_def example_arms shell_defs glob_defs
  numeral_eq_Suc exit_code_def

text \<open>
  Claim C5, as the code has it. The parser generated from the example (the flags \<^verbatim>\<open>-f\<close>
  and \<^verbatim>\<open>-v\<close>, the option \<^verbatim>\<open>-n\<close>/\<^verbatim>\<open>--name\<close> with an argument) in the full rendering,
  which is the default, with any setting of the debug block, stops each of the five
  argument vectors with a missing-argument failure, which is exit status 2; the message,
  which \<^verbatim>\<open>exit_usage\<close> prints after the command name, holds the word \<^verbatim>\<open>argument\<close> and the
  option as typed, \<^verbatim>\<open>-n\<close> also when it comes out of \<^verbatim>\<open>-fnv\<close>. The minimal rendering does
  the same on the first four.
\<close>

theorem missing_argument_detected:
  "map (run_parser 4 docopt_example DOC_EXAMPLE (default_args\<lparr>debug_print := dp\<rparr>) Map.empty)
     [[''--name''], [''--name'', ''--'', ''Arthur''], [''-n''], [''-n'', ''--''], [''-fnv'']]
   = map (\<lambda>opt. Some (UsageExit MissingArgument (''missing argument for option '' @ sq @ opt @ sq)))
       [''--name'', ''--name'', ''-n'', ''-n'', ''-n'']
   \<and> map (run_parser 4 docopt_example DOC_EXAMPLE
            (default_args\<lparr>minimal := True, debug_print := dp\<rparr>) Map.empty)
     [[''--name''], [''--name'', ''--'', ''Arthur''], [''-n''], [''-n'', ''--'']]
   = map (\<lambda>opt. Some (UsageExit MissingArgument (''missing argument: '' @ sq @ opt @ sq)))
       [''--name'', ''--name'', ''-n'', ''-n'']
   \<and> exit_code A env (UsageExit MissingArgument m) = Some 2"
  by (simp add: example_defs)

text \<open>
  Claim C5 as stated fails for the minimal rendering at \<^verbatim>\<open>-fnv\<close>: its \<^verbatim>\<open>check\<close> only
  refuses the end marker and \<^verbatim>\<open>--\<close>, so \<^verbatim>\<open>-n\<close> takes the rest of the bundle, \<^verbatim>\<open>-v\<close>, as
  its argument and the script runs to its end. The exit status is then that of the debug
  block: 1 with the default \<^verbatim>\<open>debug_print=None\<close> and \<^verbatim>\<open>SOPIX_DEBUG\<close> unset, 0 with
  \<^verbatim>\<open>debug_print=True\<close>, as in the tests.
\<close>

theorem bundle_rest_taken_as_argument:
  "run_parser 5 docopt_example DOC_EXAMPLE (default_args\<lparr>minimal := True\<rparr>) Map.empty [''-fnv'']
     = Some (Completed [(''v'', None), (''flag'', Some ''true''), (''name'', Some ''-v''),
                        (''only_long'', None)] [])
   \<and> exit_code (default_args\<lparr>minimal := True\<rparr>) Map.empty
        (Completed [(''v'', None), (''flag'', Some ''true''), (''name'', Some ''-v''),
                    (''only_long'', None)] []) = Some 1
   \<and> run_parser 5 docopt_example DOC_EXAMPLE
        (default_args\<lparr>minimal := True, debug_print := Some True\<rparr>) Map.empty [''-fnv'']
     = Some (Completed [(''v'', None), (''flag'', Some ''true''), (''name'', Some ''-v''),
                        (''only_long'', None)] [])
   \<and> exit_code (default_args\<lparr>minimal := True, debug_print := Some True\<rparr>) Map.empty
        (Completed [(''v'', None), (''flag'', Some ''true''), (''name'', Some ''-v''),
                    (''only_long'', None)] []) = Some 0"
  by (simp add: example_defs)

subsection \<open>The two renderings\<close>


text \<open>
  Further differences, on the same example: the minimal rendering refuses \<^verbatim>\<open>--\<close> as a
  value after \<^verbatim>\<open>--name=\<close>, calls every bad option invalid, and sets no default.
\<close>

lemma renderings_differ_elsewhere:
  "run_parser 4 docopt_example DOC_EXAMPLE default_args Map.empty [''--name=--'']
     = Some (Completed [(''v'', Some ''''), (''flag'', Some ''''), (''name'', Some ''--''),
                        (''only_long'', Some '''')] [])"
  "run_parser 4 docopt_example DOC_EXAMPLE (default_args\<lparr>minimal := True\<rparr>) Map.empty
       [''--name=--'']
     = Some (UsageExit MissingArgument (''missing argument: '' @ sq @ ''--name'' @ sq))"
  "run_parser 2 docopt_example DOC_EXAMPLE default_args Map.empty [''--nam3'']
     = Some (UsageExit UnknownLongOption (''unknown long option: '' @ sq @ ''--nam3'' @ sq))"
  "run_parser 2 docopt_example DOC_EXAMPLE (default_args\<lparr>minimal := True\<rparr>) Map.empty
       [''--nam3'']
     = Some (UsageExit InvalidOption (''invalid option: '' @ sq @ ''--nam3'' @ sq))"
  "run_parser 1 docopt_example DOC_EXAMPLE default_args Map.empty []
     = Some (Completed [(''v'', Some ''''), (''flag'', Some ''''), (''name'', Some ''Alice''),
                        (''only_long'', Some '''')] [])"
  "run_parser 1 docopt_example DOC_EXAMPLE (default_args\<lparr>minimal := True\<rparr>) Map.empty []
     = Some (Completed [(''v'', None), (''flag'', None), (''name'', None),
                        (''only_long'', None)] [])"
  by (simp_all add: example_defs)

text \<open>
  A variable inherited from the environment keeps its value in both renderings, and the
  default of the full rendering does not replace it.
\<close>

lemma inherited_variable_kept:
  "run_parser 1 docopt_example DOC_EXAMPLE default_args [''opt_name'' \<mapsto> ''Eve''] []
     = Some (Completed [(''v'', Some ''''), (''flag'', Some ''''), (''name'', Some ''Eve''),
                        (''only_long'', Some '''')] [])"
  "run_parser 1 docopt_example DOC_EXAMPLE (default_args\<lparr>minimal := True\<rparr>)
       [''opt_name'' \<mapsto> ''Eve''] []
     = Some (Completed [(''v'', None), (''flag'', None), (''name'', Some ''Eve''),
                        (''only_long'', None)] [])"
  by (simp_all add: example_defs)









section \<open>Properties of the emitted text\<close>


lemma py_rstrip_keep:
  assumes "\<not> py_isspace d"
  shows "py_rstrip (a @ d # b) = a @ d # py_rstrip b"
proof (cases "\<forall>x\<in>set b. py_isspace x")
  case True
  then have "dropWhile py_isspace (rev b) = []" by simp
  moreover have "dropWhile py_isspace (rev b @ d # rev a) = dropWhile py_isspace (d # rev a)"
    by (rule dropWhile_append2) (use True in auto)
  ultimately show ?thesis using assms by (simp add: py_rstrip_def)
next
  case False
  then obtain x where "x \<in> set (rev b)" "\<not> py_isspace x" by auto
  then have "dropWhile py_isspace (rev b @ d # rev a) = dropWhile py_isspace (rev b) @ d # rev a"
    by (rule dropWhile_append1)
  then show ?thesis by (simp add: py_rstrip_def)
qed

lemma py_strip_keep:
  assumes "\<not> py_isspace c" "\<not> py_isspace d"
  shows "py_strip (c # a @ d # b) = c # a @ d # py_rstrip b"
proof -
  have "py_rstrip ((c # a) @ d # b) = (c # a) @ d # py_rstrip b"
    using assms(2) by (rule py_rstrip_keep)
  then show ?thesis using assms(1) by (simp add: py_strip_def py_lstrip_def)
qed

lemma py_strip_keep1:
  assumes "\<not> py_isspace c"
  shows "py_strip (c # b) = c # py_rstrip b"
  using py_rstrip_keep [of c "[]" b] assms by (simp add: py_strip_def py_lstrip_def)

lemma template_head:
  \<open>PARSER_TEMPLATE = ''${__SHEBANG__}'' @ nl @ nl @ ''CMD=${__CMD__}${__STRIP_EXT__}'' @ nl
      @ ''USAGE="${__USAGE_MSG__}"'' @ drop 71 PARSER_TEMPLATE\<close>
  by (simp add: PARSER_TEMPLATE_def)

lemma subst_head:
  assumes "m ''__SHEBANG__'' = x1" "m ''__CMD__'' = x2" "m ''__STRIP_EXT__'' = x3"
    "m ''__USAGE_MSG__'' = x4"
  shows \<open>safe_substitute m (''${__SHEBANG__}'' @ nl @ nl @ ''CMD=${__CMD__}${__STRIP_EXT__}'' @ nl
      @ ''USAGE="${__USAGE_MSG__}"'' @ R)
   = (case x1 of Some v \<Rightarrow> v | None \<Rightarrow> ''${__SHEBANG__}'') @ nl @ nl @ ''CMD=''
     @ (case x2 of Some v \<Rightarrow> v | None \<Rightarrow> ''${__CMD__}'')
     @ (case x3 of Some v \<Rightarrow> v | None \<Rightarrow> ''${__STRIP_EXT__}'') @ nl @ ''USAGE="''
     @ (case x4 of Some v \<Rightarrow> v | None \<Rightarrow> ''${__USAGE_MSG__}'') @ ''"'' @ safe_substitute m R\<close>
  using assms by (simp add: char_defs split: option.splits)
declare strip_comment_lines.simps [simp del] py_replace.simps [simp del]

lemma py_strip_visible:
  assumes "\<exists>x\<in>set s. \<not> py_isspace x"
  shows "py_strip s \<noteq> [] \<and> \<not> py_isspace (hd (py_strip s)) \<and> \<not> py_isspace (last (py_strip s))"
proof -
  from assms obtain a d b where s: "s = a @ d # b" and d: "\<not> py_isspace d"
    and b: "\<forall>x\<in>set b. py_isspace x"
    using split_list_last_prop [of s "\<lambda>x. \<not> py_isspace x"] by auto
  from b have "py_rstrip b = []" by (simp add: py_rstrip_def)
  with d have r: "py_rstrip s = a @ [d]" unfolding s by (simp add: py_rstrip_keep)
  have ne: "dropWhile py_isspace (a @ [d]) \<noteq> []" using d by (simp add: dropWhile_eq_Nil_conv)
  then have h: "\<not> py_isspace (hd (dropWhile py_isspace (a @ [d])))" by (rule hd_dropWhile)
  have "last (dropWhile py_isspace (a @ [d])) = d"
  proof (cases "\<forall>x\<in>set a. py_isspace x")
    case True
    have "dropWhile py_isspace (a @ [d]) = dropWhile py_isspace [d]"
      by (rule dropWhile_append2) (use True in auto)
    then show ?thesis using d by simp
  next
    case False
    then obtain x where "x \<in> set a" "\<not> py_isspace x" by auto
    then have "dropWhile py_isspace (a @ [d]) = dropWhile py_isspace a @ [d]"
      by (rule dropWhile_append1)
    then show ?thesis by simp
  qed
  with ne h d r show ?thesis by (simp add: py_strip_def py_lstrip_def)
qed

lemma takeWhile_until: "c \<notin> set l \<Longrightarrow> takeWhile (\<lambda>x. x \<noteq> c) (l @ c # r) = l"
  by (induction l) auto

lemma dropWhile_until: "c \<notin> set l \<Longrightarrow> dropWhile (\<lambda>x. x \<noteq> c) (l @ c # r) = c # r"
  by (induction l) auto

lemma match_comment_line_other:
  "c \<noteq> CHR 0x09 \<Longrightarrow> c \<noteq> CHR '' '' \<Longrightarrow> c \<noteq> CHR ''#'' \<Longrightarrow> match_comment_line (c # s) = None"
  by (simp add: match_comment_line_def split: list.splits)

lemma match_comment_line_shebang: "match_comment_line (CHR ''#'' # CHR ''!'' # s) = None"
  by (simp add: match_comment_line_def split: list.splits)

lemma strip_comment_lines_keep:
  assumes "match_comment_line (l @ CHR 0x0A # r) = None" and "CHR 0x0A \<notin> set l"
  shows "strip_comment_lines (l @ CHR 0x0A # r) = l @ CHR 0x0A # strip_comment_lines r"
  by (subst strip_comment_lines.simps) (simp add: assms takeWhile_until dropWhile_until)

lemma strip_comment_lines_first:
  assumes "match_comment_line (c # s) = None" and "c \<noteq> CHR 0x0A"
  shows "\<exists>W. strip_comment_lines (c # s) = c # W"
  by (subst strip_comment_lines.simps) (simp add: assms)

lemma strip_inline_other:
  "c \<noteq> CHR '' '' \<Longrightarrow> strip_inline_comments (c # s) = c # strip_inline_comments s"
  by simp

lemma shebang_snippet_Inr:
  assumes "shebang_snippet s = Inr sb"
  shows "sb = [] \<or> (\<exists>t. sb = CHR ''#'' # CHR ''!'' # t \<and> CHR 0x0A \<notin> set t)"
proof (cases "s = []")
  case True
  with assms show ?thesis by (simp add: shebang_snippet_def)
next
  case False
  with assms have n: "CHR 0x0A \<notin> set s" by (simp add: shebang_snippet_def split: if_splits)
  show ?thesis
  proof (cases "startswith s ''#!''")
    case True
    with False assms n have "sb = s" by (simp add: shebang_snippet_def split: if_splits)
    moreover from True obtain t where "s = CHR ''#'' # CHR ''!'' # t"
      by (cases s; cases "tl s") (auto simp: startswith_def)
    ultimately show ?thesis using n by auto
  next
    case nt: False
    with False assms n have "sb = ''#!'' @ py_strip s" by (simp add: shebang_snippet_def split: if_splits)
    moreover have "set (py_strip s) \<subseteq> set s"
      by (auto simp: py_strip_def py_lstrip_def py_rstrip_def dest!: set_dropWhileD)
    ultimately show ?thesis using n by auto
  qed
qed
lemma snippets_lookup:
  "map_of (snippets_of A pc usage hlp sb arms printf) ''__SHEBANG__'' = Some sb"
  "map_of (snippets_of A pc usage hlp sb arms printf) ''__CMD__''
     = Some (or_else (if truthy (command A) then command A else pc) SNIPPET_cmd)"
  "map_of (snippets_of A pc usage hlp sb arms printf) ''__STRIP_EXT__''
     = Some (if keep_command_ext A \<or> truthy pc then '''' else SNIPPET_strip_ext)"
  "map_of (snippets_of A pc usage hlp sb arms printf) ''__USAGE_MSG__''
     = Some (if truthy (if truthy (command A) then command A else pc)
             then sub_usage_cmd usage else usage)"
  by (simp_all add: snippets_of_def Let_def)

text \<open>
  The start of the text before the comments are stripped: the four placeholders of the
  first three lines of the template are substituted in the second pass.
\<close>

lemma assemble_head:
  assumes "map_of sn ''__SHEBANG__'' = Some sb" "map_of sn ''__CMD__'' = Some cmd"
    "map_of sn ''__STRIP_EXT__'' = Some ext" "map_of sn ''__USAGE_MSG__'' = Some usage"
  shows \<open>\<exists>Z. assemble A sn
     = py_strip (if strip_comments A
                 then strip_inline_comments (strip_comment_lines
                        (sb @ nl @ nl @ ''CMD='' @ cmd @ ext @ nl @ ''USAGE="'' @ usage @ ''"'' @ Z))
                 else sb @ nl @ nl @ ''CMD='' @ cmd @ ext @ nl @ ''USAGE="'' @ usage @ ''"'' @ Z)
       @ nl\<close>
proof -
  define R where "R = drop 71 PARSER_TEMPLATE"
  define m1 where "m1 = map_of sn |` set early_snippets"
  have T: \<open>PARSER_TEMPLATE = ''${__SHEBANG__}'' @ nl @ nl @ ''CMD=${__CMD__}${__STRIP_EXT__}'' @ nl
      @ ''USAGE="${__USAGE_MSG__}"'' @ R\<close>
    unfolding R_def by (rule template_head)
  have e: "m1 ''__SHEBANG__'' = None" "m1 ''__CMD__'' = None" "m1 ''__STRIP_EXT__'' = None"
    "m1 ''__USAGE_MSG__'' = None"
    by (simp_all add: m1_def early_snippets_def restrict_map_def)
  have p1: \<open>safe_substitute m1 PARSER_TEMPLATE
      = ''${__SHEBANG__}'' @ nl @ nl @ ''CMD=${__CMD__}${__STRIP_EXT__}'' @ nl
        @ ''USAGE="${__USAGE_MSG__}"'' @ safe_substitute m1 R\<close>
    by (subst T, subst subst_head [OF e]) simp
  define P2 where "P2 = (if expand_tabs A > 0
      then replace_char CHR 0x09 (replicate (nat (expand_tabs A)) CHR '' '') (safe_substitute m1 R)
      else safe_substitute m1 R)"
  have p2: \<open>(if expand_tabs A > 0
        then replace_char CHR 0x09 (replicate (nat (expand_tabs A)) CHR '' '')
               (safe_substitute m1 PARSER_TEMPLATE)
        else safe_substitute m1 PARSER_TEMPLATE)
      = ''${__SHEBANG__}'' @ nl @ nl @ ''CMD=${__CMD__}${__STRIP_EXT__}'' @ nl
        @ ''USAGE="${__USAGE_MSG__}"'' @ P2\<close>
    unfolding p1 P2_def by (simp add: replace_char_def)
  have p3: \<open>safe_substitute (map_of sn)
        (''${__SHEBANG__}'' @ nl @ nl @ ''CMD=${__CMD__}${__STRIP_EXT__}'' @ nl
          @ ''USAGE="${__USAGE_MSG__}"'' @ P2)
      = sb @ nl @ nl @ ''CMD='' @ cmd @ ext @ nl @ ''USAGE="'' @ usage @ ''"''
        @ safe_substitute (map_of sn) P2\<close>
    by (subst subst_head [OF assms]) simp
  show ?thesis
    unfolding assemble_def Let_def m1_def [symmetric] p2 p3
    by (rule exI [of _ "safe_substitute (map_of sn) P2"]) simp
qed

lemma generate_parser_Inr:
  assumes "generate_parser D doc A = Inr text"
  obtains pc usage hlp options sb arms printf where
    "parse_docstring D doc = Inr (pc, usage, hlp, options)"
    "shebang_snippet (shebang A) = Inr sb"
    "text = assemble A (snippets_of A pc usage hlp sb arms printf)"
  using assms unfolding generate_parser_def emit_parser_def
  by (auto split: sum.splits prod.splits)

text \<open>The text that \<open>assemble\<close> strips at the end holds a character that is not blank.\<close>

lemma assemble_visible:
  assumes "shebang_snippet s = Inr sb"
  shows "\<exists>P. assemble A (snippets_of A pc usage hlp sb arms printf) = py_strip P @ nl
             \<and> (\<exists>x\<in>set P. \<not> py_isspace x)"
proof -
  obtain Z cmd ext u where a: \<open>assemble A (snippets_of A pc usage hlp sb arms printf)
     = py_strip (if strip_comments A
                 then strip_inline_comments (strip_comment_lines
                        (sb @ nl @ nl @ ''CMD='' @ cmd @ ext @ nl @ ''USAGE="'' @ u @ ''"'' @ Z))
                 else sb @ nl @ nl @ ''CMD='' @ cmd @ ext @ nl @ ''USAGE="'' @ u @ ''"'' @ Z)
       @ nl\<close>
    using assemble_head [where A = A, OF snippets_lookup [of A pc usage hlp sb arms printf]]
    by blast
  define W where \<open>W = cmd @ ext @ nl @ ''USAGE="'' @ u @ ''"'' @ Z\<close>
  define P where "P = (if strip_comments A
      then strip_inline_comments (strip_comment_lines (sb @ nl @ nl @ ''CMD='' @ W))
      else sb @ nl @ nl @ ''CMD='' @ W)"
  have a': "assemble A (snippets_of A pc usage hlp sb arms printf) = py_strip P @ nl"
    unfolding a P_def W_def by simp
  have "\<exists>x\<in>set P. \<not> py_isspace x"
  proof (cases "strip_comments A")
    case False
    then have "CHR ''C'' \<in> set P" by (simp add: P_def)
    moreover have "\<not> py_isspace CHR ''C''" by (simp add: py_isspace_def)
    ultimately show ?thesis by blast
  next
    case True
    from shebang_snippet_Inr [OF assms] consider "sb = []"
      | t where "sb = CHR ''#'' # CHR ''!'' # t" by blast
    then show ?thesis
    proof cases
      case 1
      obtain X where X: "strip_comment_lines (CHR ''C'' # ''MD='' @ W) = CHR ''C'' # X"
        using strip_comment_lines_first [of "CHR ''C''" "''MD='' @ W"]
        by (auto simp: match_comment_line_other)
      have "strip_comment_lines (nl @ nl @ ''CMD='' @ W) = nl @ nl @ CHR ''C'' # X"
        using strip_comment_lines_keep [of "[]" "nl @ ''CMD='' @ W"]
          strip_comment_lines_keep [of "[]" "''CMD='' @ W"] X
        by (simp add: match_comment_line_other)
      then have "P = nl @ nl @ CHR ''C'' # strip_inline_comments X"
        using 1 True by (simp add: P_def)
      then have "CHR ''C'' \<in> set P" by simp
      moreover have "\<not> py_isspace CHR ''C''" by (simp add: py_isspace_def)
      ultimately show ?thesis by blast
    next
      case 2
      obtain X where "strip_comment_lines (CHR ''#'' # CHR ''!'' # t @ nl @ nl @ ''CMD='' @ W)
          = CHR ''#'' # X"
        using strip_comment_lines_first [of "CHR ''#''" "CHR ''!'' # t @ nl @ nl @ ''CMD='' @ W"]
        by (auto simp: match_comment_line_shebang)
      then have "P = CHR ''#'' # strip_inline_comments X"
        using 2 True by (simp add: P_def)
      then have "CHR ''#'' \<in> set P" by simp
      moreover have "\<not> py_isspace CHR ''#''" by (simp add: py_isspace_def)
      ultimately show ?thesis by blast
    qed
  qed
  with a' show ?thesis by blast
qed

text \<open>
  Claim C10: whenever \<open>generate_parser\<close> returns a text, for every docstring and all
  arguments, the text is not empty, its first character is not white space, and it ends
  with one newline character that follows a character that is not white space.
\<close>

theorem output_shape:
  assumes "generate_parser D doc A = Inr text"
  shows "text \<noteq> [] \<and> \<not> py_isspace (hd text)
         \<and> (\<exists>t. text = t @ nl \<and> t \<noteq> [] \<and> \<not> py_isspace (last t))"
proof -
  from assms obtain pc usage hlp options sb arms printf where
      p: "parse_docstring D doc = Inr (pc, usage, hlp, options)"
      and s: "shebang_snippet (shebang A) = Inr sb"
      and t: "text = assemble A (snippets_of A pc usage hlp sb arms printf)"
    by (rule generate_parser_Inr)
  from assemble_visible [OF s] t obtain P where P: "text = py_strip P @ nl"
    and v: "\<exists>x\<in>set P. \<not> py_isspace x" by blast
  from py_strip_visible [OF v] P show ?thesis by auto
qed

lemma generate_example:
  "\<exists>text. generate_parser docopt_example DOC_EXAMPLE default_args = Inr text"
proof -
  have "shebang_snippet (shebang default_args) = Inr ''#!/bin/sh -eu''"
    using default_shebang by (simp add: default_args_def)
  from emit_example [OF this]
  have "\<exists>text. emit_parser default_args
      (None, ''Usage:  $CMD [-fhv] [-n ARG] [--only-long] [ARGS...]'',
       ''$USAGE'' @ nl @ nl @ py_strip DOC_EXAMPLE, example_options) = Inr text" .
  then show ?thesis
    unfolding generate_parser_def parse_example sum.case .
qed

theorem output_shape_witness:
  "\<exists>text. generate_parser docopt_example DOC_EXAMPLE default_args = Inr text
      \<and> text \<noteq> [] \<and> \<not> py_isspace (hd text)
      \<and> (\<exists>t. text = t @ nl \<and> t \<noteq> [] \<and> \<not> py_isspace (last t))"
proof -
  from generate_example obtain script
    where g: "generate_parser docopt_example DOC_EXAMPLE default_args = Inr script" ..
  have "generate_parser docopt_example DOC_EXAMPLE default_args = Inr script
      \<and> script \<noteq> [] \<and> \<not> py_isspace (hd script)
      \<and> (\<exists>t. script = t @ nl \<and> t \<noteq> [] \<and> \<not> py_isspace (last t))"
    using g output_shape [OF g] by (rule conjI)
  then show ?thesis by (rule exI)
qed


end
